theory Spec2Isabelle
  imports Complex_Main "HOL-Library.Word" "HOL-Library.Signed_Division"
begin

unbundle bit_operations_syntax

section \<open>memegen: one line of outlined text on a template image\<close>

text \<open>
  \<^verbatim>\<open>src/main.go\<close> holds two revisions of the program. The first (lines 1-185) is a
  single \<^verbatim>\<open>main\<close> that ends every fatal error with \<^verbatim>\<open>log.Fatalf\<close>; it is embedded as
  \<open>main_v1\<close>. The second (lines 186-393) splits the work into \<^verbatim>\<open>main\<close> and \<^verbatim>\<open>run\<close>; they
  are embedded as \<open>main_v2\<close> and \<open>run\<close>. \<^verbatim>\<open>measureString\<close> is the same in both.

  Go's \<^verbatim>\<open>int\<close> has 64 bits on the platforms the program is built for. The only values of
  that type are an image width (below \<open>2^31\<close> for a decoded PNG), a text width (a 32-bit
  value shifted right by 6), differences and halves of these and the constants 2, 20 and
  144, so no operation leaves the 64-bit range and \<^verbatim>\<open>int\<close> is embedded as \<^typ>\<open>int\<close>.
  Fixed-point numbers (\<^verbatim>\<open>fixed.Int26_6\<close>, an \<^verbatim>\<open>int32\<close>) are 32-bit words.
\<close>

subsection \<open>Strings (package strings)\<close>

text \<open>
  A Go string is a sequence of bytes, as \<^typ>\<open>string\<close> is. \<^verbatim>\<open>strings.ToUpper\<close> and
  \<^verbatim>\<open>strings.ToLower\<close> first scan for a byte \<open>\<ge> 0x80\<close>. Without one they map the ASCII
  letters byte by byte; with one they hand the string to \<^verbatim>\<open>strings.Map\<close> with the Unicode
  case tables, which are not part of the repository and are taken as parameters.
\<close>

definition isASCII :: "string \<Rightarrow> bool" where
  "isASCII s = list_all (\<lambda>c. (of_char c :: nat) < 128) s"

definition upperByte :: "char \<Rightarrow> char" where
  "upperByte c =
     (if (97::nat) \<le> of_char c \<and> (of_char c :: nat) \<le> 122
      then char_of ((of_char c :: nat) - 32) else c)"

definition lowerByte :: "char \<Rightarrow> char" where
  "lowerByte c =
     (if (65::nat) \<le> of_char c \<and> (of_char c :: nat) \<le> 90
      then char_of ((of_char c :: nat) + 32) else c)"

definition HasSuffix :: "string \<Rightarrow> string \<Rightarrow> bool" where
  "HasSuffix s suffix =
     (length suffix \<le> length s \<and> drop (length s - length suffix) s = suffix)"

subsection \<open>Integers and fixed-point numbers\<close>

text \<open>Go's \<^verbatim>\<open>/\<close> on integers truncates towards zero; that is \<open>sdiv\<close>.\<close>

type_synonym Int26_6 = "32 word"

type_synonym Point = "int \<times> int"

type_synonym Point26_6 = "Int26_6 \<times> Int26_6"

text \<open>
  \<^verbatim>\<open>freetype.Pt(x, y)\<close> is \<^verbatim>\<open>fixed.Point26_6{X: fixed.Int26_6(x << 6), Y: fixed.Int26_6(y << 6)}\<close>:
  the shifted value is cut to 32 bits.
\<close>

definition Pt :: "int \<Rightarrow> int \<Rightarrow> Point26_6" where
  "Pt x y = (word_of_int (push_bit 6 x), word_of_int (push_bit 6 y))"

subsection \<open>Floating point at the one place it is used\<close>

text \<open>
  \<^verbatim>\<open>Context.PointToFixed\<close> of the freetype package computes
  \<^verbatim>\<open>fixed.Int26_6(x * float64(c.dpi) * (64.0 / 72.0))\<close> in binary64. The values are
  embedded as rationals, and every operation rounds its exact result to the nearest
  number with a 53-bit significand, ties to even (\<open>fl64\<close>). Overflow to infinity and
  subnormal numbers are left out, the program's three values being far from both:
  \<open>normalise\<close> gives up after 1075 steps and \<open>fl64\<close> then leaves the value as it is.
\<close>

fun normalise :: "nat \<Rightarrow> rat \<Rightarrow> int \<Rightarrow> (rat \<times> int) option" where
  "normalise 0 x e = None"
| "normalise (Suc n) x e =
     (if x < 2 ^ 52 then normalise n (2 * x) (e - 1)
      else if 2 ^ 53 \<le> x then normalise n (x / 2) (e + 1)
      else Some (x, e))"

definition round_even :: "rat \<Rightarrow> int" where
  "round_even q =
     (let f = \<lfloor>q\<rfloor>; r = q - of_int f
      in if r < 1 / 2 then f
         else if 1 / 2 < r then f + 1
         else if even f then f else f + 1)"

definition scale2 :: "int \<Rightarrow> rat" where
  "scale2 e = (if 0 \<le> e then 2 ^ nat e else 1 / 2 ^ nat (- e))"

definition fl64 :: "rat \<Rightarrow> rat" where
  "fl64 x =
     (if x = 0 then 0
      else case normalise 1075 \<bar>x\<bar> 0 of
             None \<Rightarrow> x
           | Some (q, e) \<Rightarrow> sgn x * of_int (round_even q) * scale2 e)"

text \<open>Converting a float to an integer type drops the fraction (towards zero).\<close>

definition trunc :: "rat \<Rightarrow> int" where
  "trunc x = (if 0 \<le> x then \<lfloor>x\<rfloor> else \<lceil>x\<rceil>)"

subsection \<open>Images (packages image, image/draw)\<close>

record Rectangle =
  rMin :: Point
  rMax :: Point

definition image_Rect :: "int \<Rightarrow> int \<Rightarrow> int \<Rightarrow> int \<Rightarrow> Rectangle" where
  "image_Rect x0 y0 x1 y1 = \<lparr>rMin = (min x0 x1, min y0 y1), rMax = (max x0 x1, max y0 y1)\<rparr>"

definition Dx :: "Rectangle \<Rightarrow> int" where
  "Dx r = fst (rMax r) - fst (rMin r)"

definition Dy :: "Rectangle \<Rightarrow> int" where
  "Dy r = snd (rMax r) - snd (rMin r)"

definition Empty :: "Rectangle \<Rightarrow> bool" where
  "Empty r = (fst (rMax r) \<le> fst (rMin r) \<or> snd (rMax r) \<le> snd (rMin r))"

definition In :: "Point \<Rightarrow> Rectangle \<Rightarrow> bool" where
  "In p r = (fst (rMin r) \<le> fst p \<and> fst p < fst (rMax r) \<and>
             snd (rMin r) \<le> snd p \<and> snd p < snd (rMax r))"

definition ZR :: Rectangle where
  "ZR = \<lparr>rMin = (0, 0), rMax = (0, 0)\<rparr>"

definition Intersect :: "Rectangle \<Rightarrow> Rectangle \<Rightarrow> Rectangle" where
  "Intersect r s =
     (let t = \<lparr>rMin = (max (fst (rMin r)) (fst (rMin s)), max (snd (rMin r)) (snd (rMin s))),
               rMax = (min (fst (rMax r)) (fst (rMax s)), min (snd (rMax r)) (snd (rMax s)))\<rparr>
      in if Empty t then ZR else t)"

definition Add :: "Rectangle \<Rightarrow> Point \<Rightarrow> Rectangle" where
  "Add r p = \<lparr>rMin = (fst (rMin r) + fst p, snd (rMin r) + snd p),
              rMax = (fst (rMax r) + fst p, snd (rMax r) + snd p)\<rparr>"

type_synonym RGBA = "8 word \<times> 8 word \<times> 8 word \<times> 8 word"

text \<open>
  An image is its bounds and its pixels, read through \<^verbatim>\<open>At\<close> and the RGBA colour model.
\<close>

record Image =
  Bounds :: Rectangle
  At :: "Point \<Rightarrow> RGBA"

definition NewRGBA :: "Rectangle \<Rightarrow> Image" where
  "NewRGBA r = \<lparr>Bounds = r, At = (\<lambda>p. (0, 0, 0, 0))\<rparr>"

text \<open>
  \<^verbatim>\<open>draw.Draw(dst, r, src, sp, draw.Src)\<close> aligns \<open>r.Min\<close> in \<open>dst\<close> with \<open>sp\<close> in \<open>src\<close>,
  clips \<open>r\<close> to the bounds of both images and replaces that part of \<open>dst\<close> by \<open>src\<close>.
\<close>

definition draw_Draw :: "Image \<Rightarrow> Rectangle \<Rightarrow> Image \<Rightarrow> Point \<Rightarrow> Image" where
  "draw_Draw dst r src sp =
     (let orig = rMin r;
          d = (fst orig - fst sp, snd orig - snd sp);
          r' = Intersect (Intersect r (Bounds dst)) (Add (Bounds src) d)
      in dst\<lparr>At := (\<lambda>p. if In p r' then At src (fst p - fst d, snd p - snd d)
                         else At dst p)\<rparr>)"

text \<open>
  \<^verbatim>\<open>image.Decode\<close> runs on the embedded \<^verbatim>\<open>template.png\<close>. The only decoder the program
  registers is \<^verbatim>\<open>image/png\<close>, whose images have their bounds at the origin:
  \<open>image.Rect(0, 0, width, height)\<close>.
\<close>

record decoded =
  width :: nat
  height :: nat
  pixels :: "Point \<Rightarrow> RGBA"
  format :: string

definition baseImg_of :: "decoded \<Rightarrow> Image" where
  "baseImg_of d = \<lparr>Bounds = image_Rect 0 0 (int (width d)) (int (height d)), At = pixels d\<rparr>"

subsection \<open>Fonts and the drawing context (packages truetype, font, freetype)\<close>

datatype Font = Font string

datatype Hinting = HintingNone | HintingVertical | HintingFull

record Options =
  Size :: rat
  DPI :: rat
  Hinting :: Hinting

record Face =
  face_font :: Font
  face_opts :: Options

definition NewFace :: "Font \<Rightarrow> Options \<Rightarrow> Face" where
  "NewFace fnt opts = \<lparr>face_font = fnt, face_opts = opts\<rparr>"

datatype Uniform = image_White | image_Black

record Context =
  c_f :: "Font option"
  c_fontSize :: rat
  c_dpi :: rat
  c_clip :: Rectangle
  c_hinting :: Hinting
  c_src :: "Uniform option"

definition NewContext :: Context where
  "NewContext = \<lparr>c_f = None, c_fontSize = 12, c_dpi = 72, c_clip = ZR,
                  c_hinting = HintingNone, c_src = None\<rparr>"

definition PointToFixed :: "Context \<Rightarrow> rat \<Rightarrow> Int26_6" where
  "PointToFixed c x = word_of_int (trunc (fl64 (fl64 (x * c_dpi c) * fl64 (64 / 72))))"

subsection \<open>Errors, destinations and what the program can observe\<close>

text \<open>
  An error value of a library call is either an \<^verbatim>\<open>*os.PathError\<close> with its \<open>Op\<close> and
  \<open>Path\<close>, or any other error.
\<close>

datatype go_error = PathError string string | OtherError string

datatype dest = os_Stdout | File string

text \<open>
  Everything outside the program is a parameter: the Unicode case mappings, the file
  system, the two embedded resources as their decoders see them, the font's metrics and
  rasteriser, and the PNG encoder writing to its destination.
\<close>

record env =
  unicode_ToUpper :: "string \<Rightarrow> string"
  unicode_ToLower :: "string \<Rightarrow> string"
  os_Create :: "string \<Rightarrow> go_error option"
  image_Decode :: "go_error + decoded"
  ParseFont :: "go_error + Font"
  MeasureString :: "Face \<Rightarrow> string \<Rightarrow> Int26_6"
  DrawString :: "Context \<Rightarrow> string \<Rightarrow> Point26_6 \<Rightarrow> Image \<Rightarrow> (Point \<Rightarrow> RGBA) \<times> go_error option"
  png_Encode :: "dest \<Rightarrow> Image \<Rightarrow> go_error option"

text \<open>
  \<^verbatim>\<open>c.DrawString(s, p)\<close> with \<^verbatim>\<open>c.SetDst(rgbaImg)\<close> in force: the rasteriser writes
  pixels of the canvas the context points to; the canvas keeps its bounds.
\<close>

definition Context_DrawString ::
  "env \<Rightarrow> Context \<Rightarrow> string \<Rightarrow> Point26_6 \<Rightarrow> Image \<Rightarrow> Image \<times> go_error option" where
  "Context_DrawString E c s p rgbaImg =
     (let r = DrawString E c s p rgbaImg in (rgbaImg\<lparr>At := fst r\<rparr>, snd r))"

definition ToUpper :: "env \<Rightarrow> string \<Rightarrow> string" where
  "ToUpper E s = (if isASCII s then map upperByte s else unicode_ToUpper E s)"

definition ToLower :: "env \<Rightarrow> string \<Rightarrow> string" where
  "ToLower E s = (if isASCII s then map lowerByte s else unicode_ToLower E s)"

subsection \<open>Constants of the program\<close>

definition dpi :: rat where
  "dpi = 72"

definition fontSize :: rat where
  "fontSize = 144"

definition paddingY :: int where
  "paddingY = 20"

definition outlineThickness :: int where
  "outlineThickness = 2"

definition fillColor :: Uniform where
  "fillColor = image_White"

definition outlineColor :: Uniform where
  "outlineColor = image_Black"

subsection \<open>measureString\<close>

text \<open>
  \<^verbatim>\<open>widthInFixedPoint >> 6\<close> is an arithmetic shift of a signed 32-bit value; \<^verbatim>\<open>int(...)\<close>
  reads it as signed. The second component is the returned error: always \<^verbatim>\<open>nil\<close>.
\<close>

definition measureString ::
  "env \<Rightarrow> Font \<Rightarrow> rat \<Rightarrow> rat \<Rightarrow> Hinting \<Rightarrow> string \<Rightarrow> int \<times> go_error option" where
  "measureString E fnt size' dpi' hinting text =
     (let face = NewFace fnt \<lparr>Size = size', DPI = dpi', Hinting = hinting\<rparr>;
          widthInFixedPoint = MeasureString E face text;
          widthInPixels = sint (signed_drop_bit 6 widthInFixedPoint)
      in (widthInPixels, None))"

subsection \<open>What a run leaves behind\<close>

text \<open>
  \<^verbatim>\<open>run\<close> wraps the library's error in one of eight contexts (\<^verbatim>\<open>fmt.Errorf\<close> with \<open>%w\<close>).
\<close>

datatype run_error =
    CreatingOutputFile string go_error
  | DecodingTemplateImage go_error
  | ParsingFont go_error
  | MeasuringTextWidth go_error
  | DrawingOutlinePart Point go_error
  | DrawingMainTextFill go_error
  | WritingPNGToStdout go_error
  | EncodingOrWritingPNG go_error

text \<open>
  The lines the program prints, one constructor for each format string. The \<open>Log\<close>,
  \<open>Warn\<close> and \<open>Fatal\<close> lines belong to the first revision (package \<^verbatim>\<open>log\<close>, which writes to
  standard error), \<open>ErrorLine\<close> and \<open>Successfully\<close> to the second. \<open>RuntimePanic\<close> is the Go
  runtime's report of an index out of range.
\<close>

datatype msg =
    UsageLine1 string
  | UsageLine2
  | UsageLine3
  | WarnNotPng string
  | FatalCreate string go_error
  | LogOutputSaved string
  | LogStdout
  | FatalDecode go_error
  | LogTemplateJPEG string
  | LogTemplate string
  | FatalParseFont go_error
  | LogFontLoaded
  | FatalMeasure go_error
  | LogDrawingOutline
  | WarnOutlinePart Point go_error
  | LogDrawingFill
  | FatalMainText go_error
  | LogTextDrawn string
  | WarnBrokenPipe
  | FatalEncode go_error
  | LogSuccess
  | ErrorLine run_error
  | Successfully string
  | RuntimePanic

text \<open>
  The trace of a run: each write to standard error or standard output and each call of
  a library operation, in order, with the error the call returned.
\<close>

datatype event =
    Stderr msg
  | Stdout msg
  | Create string "go_error option"
  | Close string
  | Decode "go_error option"
  | Parse "go_error option"
  | Measure string
  | Draw "Uniform option" string Point26_6 "go_error option"
  | Encode dest "go_error option"

text \<open>
  \<open>png\<close> is the canvas \<^verbatim>\<open>png.Encode\<close> wrote in full, with its destination; \<open>canvas0\<close> is
  the canvas as it was before the first \<^verbatim>\<open>DrawString\<close>.
\<close>

record run_result =
  events :: "event list"
  canvas0 :: "Image option"
  png :: "(dest \<times> Image) option"
  err :: "run_error option"

record main_result =
  trace :: "event list"
  first_canvas :: "Image option"
  written :: "(dest \<times> Image) option"
  status :: nat

subsection \<open>Geometry of the text (section 6 of both revisions)\<close>

definition startX_v1 :: "int \<Rightarrow> int \<Rightarrow> int" where
  "startX_v1 imageWidth textWidth = (imageWidth - textWidth) sdiv 2"

definition startX_v2 :: "int \<Rightarrow> int \<Rightarrow> int" where
  "startX_v2 imageWidth textWidth =
     (let startX = (imageWidth - textWidth) sdiv 2
      in if startX < 0 then 0 else startX)"

text \<open>
  In the first revision \<^verbatim>\<open>fontSize*dpi/72.0\<close> is a constant expression: Go evaluates it
  exactly and converts the result, an integer, to \<^verbatim>\<open>int\<close>.
\<close>

definition startY_v1 :: int where
  "startY_v1 = paddingY + trunc (fontSize * dpi / 72)"

definition startY_v2 :: "Context \<Rightarrow> int" where
  "startY_v2 c = paddingY + sint (signed_drop_bit 6 (PointToFixed c fontSize))"

definition offsets :: "Point list" where
  "offsets =
     [(- outlineThickness, - outlineThickness), (0, - outlineThickness),
      (outlineThickness, - outlineThickness),
      (- outlineThickness, 0), (outlineThickness, 0),
      (- outlineThickness, outlineThickness), (0, outlineThickness),
      (outlineThickness, outlineThickness)]"

text \<open>Sections 4 and 5, the same in both revisions: the canvas and the drawing context.\<close>

definition prepareCanvas :: "Image \<Rightarrow> Image" where
  "prepareCanvas baseImg =
     (let bounds = Bounds baseImg;
          rgbaImg = NewRGBA bounds
      in draw_Draw rgbaImg bounds baseImg (0, 0))"

definition setupContext :: "Font \<Rightarrow> Image \<Rightarrow> Context" where
  "setupContext ttFont rgbaImg =
     NewContext\<lparr>c_dpi := dpi, c_f := Some ttFont, c_fontSize := fontSize,
                c_clip := Bounds rgbaImg, c_hinting := HintingFull\<rparr>"

subsection \<open>Second revision: run and main\<close>

text \<open>The outline loop of \<^verbatim>\<open>run\<close>: the first failing \<^verbatim>\<open>DrawString\<close> ends it.\<close>

fun outline_v2 ::
  "env \<Rightarrow> Context \<Rightarrow> string \<Rightarrow> int \<Rightarrow> int \<Rightarrow> Point list \<Rightarrow> Image
   \<Rightarrow> event list \<times> Image \<times> (Point \<times> go_error) option" where
  "outline_v2 E c memeText startX startY [] img = ([], img, None)"
| "outline_v2 E c memeText startX startY (offset # rest) img =
     (let offsetPt = Pt (startX + fst offset) (startY + snd offset);
          drawn = Context_DrawString E c memeText offsetPt img
      in case snd drawn of
           Some e \<Rightarrow> ([Draw (c_src c) memeText offsetPt (Some e)], fst drawn, Some (offset, e))
         | None \<Rightarrow>
             (let more = outline_v2 E c memeText startX startY rest (fst drawn)
              in (Draw (c_src c) memeText offsetPt None # fst more, snd more)))"

text \<open>Section 8 of \<^verbatim>\<open>run\<close>.\<close>

definition encode_v2 :: "env \<Rightarrow> dest \<Rightarrow> Image \<Rightarrow> Image \<Rightarrow> run_result" where
  "encode_v2 E destWriter first rgbaImg =
     (case png_Encode E destWriter rgbaImg of
        None \<Rightarrow>
          \<lparr>events = [Encode destWriter None], canvas0 = Some first,
           png = Some (destWriter, rgbaImg), err = None\<rparr>
      | Some e \<Rightarrow>
          \<lparr>events = [Encode destWriter (Some e)], canvas0 = Some first, png = None,
           err = Some (case e of
                         PathError op' path \<Rightarrow>
                           if op' = ''write'' \<and> destWriter = os_Stdout
                           then WritingPNGToStdout e else EncodingOrWritingPNG e
                       | OtherError m \<Rightarrow> EncodingOrWritingPNG e)\<rparr>)"

text \<open>Section 7 of \<^verbatim>\<open>run\<close>.\<close>

definition draw_v2 ::
  "env \<Rightarrow> Context \<Rightarrow> string \<Rightarrow> int \<Rightarrow> int \<Rightarrow> dest \<Rightarrow> Image \<Rightarrow> run_result" where
  "draw_v2 E c memeText startX startY destWriter rgbaImg =
     (let pt = Pt startX startY;
          c1 = c\<lparr>c_src := Some outlineColor\<rparr>;
          outl = outline_v2 E c1 memeText startX startY offsets rgbaImg
      in case snd (snd outl) of
           Some (offset, e) \<Rightarrow>
             \<lparr>events = fst outl, canvas0 = Some rgbaImg, png = None,
              err = Some (DrawingOutlinePart offset e)\<rparr>
         | None \<Rightarrow>
             (let c2 = c1\<lparr>c_src := Some fillColor\<rparr>;
                  drawn = Context_DrawString E c2 memeText pt (fst (snd outl))
              in case snd drawn of
                   Some e \<Rightarrow>
                     \<lparr>events = fst outl @ [Draw (c_src c2) memeText pt (Some e)],
                      canvas0 = Some rgbaImg, png = None,
                      err = Some (DrawingMainTextFill e)\<rparr>
                 | None \<Rightarrow>
                     (let r = encode_v2 E destWriter rgbaImg (fst drawn)
                      in r\<lparr>events := fst outl @ [Draw (c_src c2) memeText pt None]
                                        @ events r\<rparr>)))"

text \<open>Sections 2 to 6 of \<^verbatim>\<open>run\<close>.\<close>

definition render_v2 :: "env \<Rightarrow> string \<Rightarrow> dest \<Rightarrow> run_result" where
  "render_v2 E memeText destWriter =
     (case image_Decode E of
        Inl e \<Rightarrow>
          \<lparr>events = [Decode (Some e)], canvas0 = None, png = None,
           err = Some (DecodingTemplateImage e)\<rparr>
      | Inr d \<Rightarrow>
          (case ParseFont E of
             Inl e \<Rightarrow>
               \<lparr>events = [Decode None, Parse (Some e)], canvas0 = None, png = None,
                err = Some (ParsingFont e)\<rparr>
           | Inr ttFont \<Rightarrow>
               (let baseImg = baseImg_of d;
                    bounds = Bounds baseImg;
                    rgbaImg = prepareCanvas baseImg;
                    c = setupContext ttFont rgbaImg;
                    measured = measureString E ttFont fontSize dpi HintingFull memeText;
                    pre = [Decode None, Parse None, Measure memeText]
                in case snd measured of
                     Some e \<Rightarrow>
                       \<lparr>events = pre, canvas0 = Some rgbaImg, png = None,
                        err = Some (MeasuringTextWidth e)\<rparr>
                   | None \<Rightarrow>
                       (let textWidth = fst measured;
                            imageWidth = Dx bounds;
                            startX = startX_v2 imageWidth textWidth;
                            startY = startY_v2 c;
                            r = draw_v2 E c memeText startX startY destWriter rgbaImg
                        in r\<lparr>events := pre @ events r\<rparr>))))"

text \<open>
  Section 1 of \<^verbatim>\<open>run\<close>. The deferred \<^verbatim>\<open>outFile.Close()\<close> runs on every return after the
  file was created.
\<close>

definition run :: "env \<Rightarrow> string \<Rightarrow> string \<Rightarrow> run_result" where
  "run E memeText outputFilename =
     (if outputFilename \<noteq> []
      then (case os_Create E outputFilename of
              Some e \<Rightarrow>
                \<lparr>events = [Create outputFilename (Some e)], canvas0 = None, png = None,
                 err = Some (CreatingOutputFile outputFilename e)\<rparr>
            | None \<Rightarrow>
                (let r = render_v2 E memeText (File outputFilename)
                 in r\<lparr>events := [Create outputFilename None] @ events r
                                   @ [Close outputFilename]\<rparr>))
      else render_v2 E memeText os_Stdout)"

text \<open>
  The output name of both revisions (lines 51-56 and 236-242): \<open>(name, warned)\<close>.
\<close>

definition outputName :: "env \<Rightarrow> string \<Rightarrow> string \<times> bool" where
  "outputName E filePath =
     (if \<not> HasSuffix (ToLower E filePath) ''.png''
      then (filePath @ ''.png'', True) else (filePath, False))"

text \<open>
  \<^verbatim>\<open>os.Args[0]\<close> in the usage branch panics when \<^verbatim>\<open>os.Args\<close> is empty; the runtime then
  reports the panic on standard error and exits with status 2.
\<close>

definition usage :: "string list \<Rightarrow> main_result" where
  "usage Args =
     (if Args = []
      then \<lparr>trace = [Stderr RuntimePanic], first_canvas = None, written = None, status = 2\<rparr>
      else \<lparr>trace = [Stderr (UsageLine1 (Args ! 0)), Stderr UsageLine2, Stderr UsageLine3],
            first_canvas = None, written = None, status = 1\<rparr>)"

definition main_v2 :: "env \<Rightarrow> string list \<Rightarrow> main_result" where
  "main_v2 E Args =
     (if length Args < 2 \<or> Args ! 1 = [] then usage Args
      else
        (let memeText = ToUpper E (Args ! 1);
             named = (if length Args > 2 then outputName E (Args ! 2) else ([], False));
             outputFilename = fst named;
             warning = (if snd named then [Stderr (WarnNotPng (Args ! 2))] else []);
             r = run E memeText outputFilename
         in case err r of
              Some e \<Rightarrow>
                \<lparr>trace = warning @ events r @ [Stderr (ErrorLine e)],
                 first_canvas = canvas0 r, written = png r, status = 1\<rparr>
            | None \<Rightarrow>
                \<lparr>trace = warning @ events r
                          @ (if outputFilename \<noteq> [] then [Stdout (Successfully outputFilename)]
                             else []),
                 first_canvas = canvas0 r, written = png r, status = 0\<rparr>))"

subsection \<open>First revision: main\<close>

text \<open>
  \<open>fatal\<close> says that the run ended in \<^verbatim>\<open>log.Fatalf\<close>: the line is printed and the process
  exits with status 1 at once, without running deferred calls.
\<close>

record v1_result =
  steps :: "event list"
  canvas :: "Image option"
  pngOut :: "(dest \<times> Image) option"
  fatal :: bool

text \<open>The outline loop of the first revision: a failing \<^verbatim>\<open>DrawString\<close> is logged.\<close>

fun outline_v1 ::
  "env \<Rightarrow> Context \<Rightarrow> string \<Rightarrow> int \<Rightarrow> int \<Rightarrow> Point list \<Rightarrow> Image \<Rightarrow> event list \<times> Image" where
  "outline_v1 E c memeText startX startY [] img = ([], img)"
| "outline_v1 E c memeText startX startY (offset # rest) img =
     (let targetX = startX + fst offset;
          targetY = startY + snd offset;
          offsetPt = Pt targetX targetY;
          drawn = Context_DrawString E c memeText offsetPt img;
          logged = (case snd drawn of
                      Some e \<Rightarrow> [Stderr (WarnOutlinePart offset e)]
                    | None \<Rightarrow> []);
          more = outline_v1 E c memeText startX startY rest (fst drawn)
      in (Draw (c_src c) memeText offsetPt (snd drawn) # logged @ fst more, snd more))"

text \<open>Section 8 and the closing message.\<close>

definition encode_v1 :: "env \<Rightarrow> dest \<Rightarrow> Image \<Rightarrow> Image \<Rightarrow> v1_result" where
  "encode_v1 E outputDest first rgbaImg =
     (let success = (if outputDest \<noteq> os_Stdout then [Stderr LogSuccess] else [])
      in case png_Encode E outputDest rgbaImg of
           None \<Rightarrow>
             \<lparr>steps = Encode outputDest None # success, canvas = Some first,
              pngOut = Some (outputDest, rgbaImg), fatal = False\<rparr>
         | Some e \<Rightarrow>
             (case e of
                PathError op' path \<Rightarrow>
                  if op' = ''write'' \<and> path = ''|1''
                  then \<lparr>steps = [Encode outputDest (Some e), Stderr WarnBrokenPipe] @ success,
                        canvas = Some first, pngOut = None, fatal = False\<rparr>
                  else \<lparr>steps = [Encode outputDest (Some e), Stderr (FatalEncode e)],
                        canvas = Some first, pngOut = None, fatal = True\<rparr>
              | OtherError m \<Rightarrow>
                  \<lparr>steps = [Encode outputDest (Some e), Stderr (FatalEncode e)],
                   canvas = Some first, pngOut = None, fatal = True\<rparr>))"

text \<open>Section 7.\<close>

definition draw_v1 ::
  "env \<Rightarrow> Context \<Rightarrow> string \<Rightarrow> int \<Rightarrow> int \<Rightarrow> dest \<Rightarrow> Image \<Rightarrow> v1_result" where
  "draw_v1 E c memeText startX startY outputDest rgbaImg =
     (let pt = Pt startX startY;
          c1 = c\<lparr>c_src := Some outlineColor\<rparr>;
          outl = outline_v1 E c1 memeText startX startY offsets rgbaImg;
          c2 = c1\<lparr>c_src := Some fillColor\<rparr>;
          drawn = Context_DrawString E c2 memeText pt (snd outl);
          pre = [Stderr LogDrawingOutline] @ fst outl @ [Stderr LogDrawingFill]
      in case snd drawn of
           Some e \<Rightarrow>
             \<lparr>steps = pre @ [Draw (c_src c2) memeText pt (Some e), Stderr (FatalMainText e)],
              canvas = Some rgbaImg, pngOut = None, fatal = True\<rparr>
         | None \<Rightarrow>
             (let r = encode_v1 E outputDest rgbaImg (fst drawn)
              in r\<lparr>steps := pre @ [Draw (c_src c2) memeText pt None,
                                      Stderr (LogTextDrawn memeText)] @ steps r\<rparr>))"

text \<open>Sections 2 to 6.\<close>

definition render_v1 :: "env \<Rightarrow> string \<Rightarrow> dest \<Rightarrow> v1_result" where
  "render_v1 E memeText outputDest =
     (case image_Decode E of
        Inl e \<Rightarrow>
          \<lparr>steps = [Decode (Some e), Stderr (FatalDecode e)], canvas = None, pngOut = None,
           fatal = True\<rparr>
      | Inr d \<Rightarrow>
          (let loaded = Stderr (if format d = ''jpeg'' then LogTemplateJPEG (format d)
                                else LogTemplate (format d))
           in case ParseFont E of
                Inl e \<Rightarrow>
                  \<lparr>steps = [Decode None, loaded, Parse (Some e), Stderr (FatalParseFont e)],
                   canvas = None, pngOut = None, fatal = True\<rparr>
              | Inr ttFont \<Rightarrow>
                  (let baseImg = baseImg_of d;
                       bounds = Bounds baseImg;
                       rgbaImg = prepareCanvas baseImg;
                       c = setupContext ttFont rgbaImg;
                       measured = measureString E ttFont fontSize dpi HintingFull memeText;
                       pre = [Decode None, loaded, Parse None, Stderr LogFontLoaded,
                              Measure memeText]
                   in case snd measured of
                        Some e \<Rightarrow>
                          \<lparr>steps = pre @ [Stderr (FatalMeasure e)], canvas = Some rgbaImg,
                           pngOut = None, fatal = True\<rparr>
                      | None \<Rightarrow>
                          (let textWidth = fst measured;
                               imageWidth = Dx bounds;
                               startX = startX_v1 imageWidth textWidth;
                               startY = startY_v1;
                               r = draw_v1 E c memeText startX startY outputDest rgbaImg
                           in r\<lparr>steps := pre @ steps r\<rparr>))))"

text \<open>
  Section 1 and the end of \<^verbatim>\<open>main\<close>. The usage lines 2 and 3 are worded a little
  differently from the second revision's; the same constructors stand for both.
\<close>

definition main_v1 :: "env \<Rightarrow> string list \<Rightarrow> main_result" where
  "main_v1 E Args =
     (if length Args < 2 \<or> Args ! 1 = [] then usage Args
      else
        (let memeText = ToUpper E (Args ! 1)
         in if length Args > 2
            then
              (let named = outputName E (Args ! 2);
                   filePath = fst named;
                   warning = (if snd named then [Stderr (WarnNotPng (Args ! 2))] else [])
               in case os_Create E filePath of
                    Some e \<Rightarrow>
                      \<lparr>trace = warning @ [Create filePath (Some e),
                                           Stderr (FatalCreate filePath e)],
                       first_canvas = None, written = None, status = 1\<rparr>
                  | None \<Rightarrow>
                      (let r = render_v1 E memeText (File filePath);
                           opened = warning @ [Create filePath None,
                                               Stderr (LogOutputSaved filePath)]
                       in if fatal r
                          then \<lparr>trace = opened @ steps r, first_canvas = canvas r,
                                written = pngOut r, status = 1\<rparr>
                          else \<lparr>trace = opened @ steps r @ [Close filePath],
                                first_canvas = canvas r, written = pngOut r, status = 0\<rparr>))
            else
              (let r = render_v1 E memeText os_Stdout
               in \<lparr>trace = Stderr LogStdout # steps r, first_canvas = canvas r,
                   written = pngOut r, status = (if fatal r then 1 else 0)\<rparr>)))"

subsection \<open>Reading a trace\<close>

text \<open>The calls of \<^verbatim>\<open>DrawString\<close>: colour, text and position, in order.\<close>

fun draws :: "event list \<Rightarrow> (Uniform option \<times> string \<times> Point26_6) list" where
  "draws [] = []"
| "draws (Draw c t p r # evs) = (c, t, p) # draws evs"
| "draws (ev # evs) = draws evs"

text \<open>The errors the calls of \<^verbatim>\<open>DrawString\<close> returned, in order.\<close>

fun drawErrors :: "event list \<Rightarrow> go_error option list" where
  "drawErrors [] = []"
| "drawErrors (Draw c t p r # evs) = r # drawErrors evs"
| "drawErrors (ev # evs) = drawErrors evs"

text \<open>The texts handed to \<^verbatim>\<open>measureString\<close> and \<^verbatim>\<open>DrawString\<close>.\<close>

fun texts :: "event list \<Rightarrow> string list" where
  "texts [] = []"
| "texts (Measure t # evs) = t # texts evs"
| "texts (Draw c t p r # evs) = t # texts evs"
| "texts (ev # evs) = texts evs"

text \<open>The lines written to standard error.\<close>

fun stderr :: "event list \<Rightarrow> msg list" where
  "stderr [] = []"
| "stderr (Stderr m # evs) = m # stderr evs"
| "stderr (ev # evs) = stderr evs"

text \<open>The destinations \<^verbatim>\<open>png.Encode\<close> was called on.\<close>

fun encodes :: "event list \<Rightarrow> dest list" where
  "encodes [] = []"
| "encodes (Encode d r # evs) = d # encodes evs"
| "encodes (ev # evs) = encodes evs"

text \<open>The events that are not a write to standard error or standard output.\<close>

fun calls :: "event list \<Rightarrow> event list" where
  "calls [] = []"
| "calls (Stderr m # evs) = calls evs"
| "calls (Stdout m # evs) = calls evs"
| "calls (ev # evs) = ev # calls evs"

text \<open>The names \<^verbatim>\<open>os.Create\<close> was called on.\<close>

fun creates :: "event list \<Rightarrow> string list" where
  "creates [] = []"
| "creates (Create name r # evs) = name # creates evs"
| "creates (ev # evs) = creates evs"

text \<open>A library call that returned an error.\<close>

fun failed :: "event \<Rightarrow> bool" where
  "failed (Create name r) = (r \<noteq> None)"
| "failed (Decode r) = (r \<noteq> None)"
| "failed (Parse r) = (r \<noteq> None)"
| "failed (Draw c t p r) = (r \<noteq> None)"
| "failed (Encode d r) = (r \<noteq> None)"
| "failed ev = False"

text \<open>Events that do no work: a printed line, or the deferred close of the file.\<close>

fun silent :: "event \<Rightarrow> bool" where
  "silent (Stderr m) = True"
| "silent (Stdout m) = True"
| "silent (Close name) = True"
| "silent ev = False"

text \<open>
  Once a library call has failed, nothing follows but printed lines and the deferred
  close.
\<close>

fun quietAfterFailure :: "event list \<Rightarrow> bool" where
  "quietAfterFailure [] = True"
| "quietAfterFailure (ev # evs) =
     (if failed ev then list_all silent evs else quietAfterFailure evs)"

subsection \<open>A sample environment\<close>

text \<open>
  An 800 by 600 template, a font in which every byte is 60 pixels wide, and library
  calls that succeed. The theorems below are stated for every environment; this one
  serves to run the program on concrete input.
\<close>

definition sample_template :: decoded where
  "sample_template =
     \<lparr>width = 800, height = 600, pixels = (\<lambda>p. (255, 255, 255, 255)), format = ''png''\<rparr>"

definition sample_env :: env where
  "sample_env =
     \<lparr>unicode_ToUpper = (\<lambda>s. s), unicode_ToLower = (\<lambda>s. s),
      os_Create = (\<lambda>name. None),
      image_Decode = Inr sample_template,
      ParseFont = Inr (Font ''Bebas Neue''),
      MeasureString = (\<lambda>face text. 3840 * word_of_nat (length text)),
      DrawString = (\<lambda>c text pt img. (At img, None)),
      png_Encode = (\<lambda>d img. None)\<rparr>"

text \<open>The same, with a rasteriser that fails on every call.\<close>

definition failing_draw_env :: env where
  "failing_draw_env =
     sample_env\<lparr>DrawString := (\<lambda>c text pt img. (At img, Some (OtherError ''glyph'')))\<rparr>"

text \<open>
  The same, with standard output redirected to a file on a full disk: the write fails
  and \<^verbatim>\<open>png.Encode\<close> returns the \<^verbatim>\<open>*os.PathError\<close> of \<^verbatim>\<open>os.Stdout\<close>, whose \<open>Path\<close> is
  \<open>/dev/stdout\<close>.
\<close>

definition stdout_write_error_env :: env where
  "stdout_write_error_env =
     sample_env\<lparr>png_Encode := (\<lambda>d img. if d = os_Stdout
                                     then Some (PathError ''write'' ''/dev/stdout'')
                                     else None)\<rparr>"

section \<open>Properties\<close>

subsection \<open>Reading concatenated traces\<close>

lemma stderr_append: "stderr (xs @ ys) = stderr xs @ stderr ys"
  by (induction xs rule: stderr.induct) simp_all

lemma draws_append: "draws (xs @ ys) = draws xs @ draws ys"
  by (induction xs rule: draws.induct) simp_all

lemma drawErrors_append: "drawErrors (xs @ ys) = drawErrors xs @ drawErrors ys"
  by (induction xs rule: drawErrors.induct) simp_all

lemma texts_append: "texts (xs @ ys) = texts xs @ texts ys"
  by (induction xs rule: texts.induct) simp_all

lemma encodes_append: "encodes (xs @ ys) = encodes xs @ encodes ys"
  by (induction xs rule: encodes.induct) simp_all

lemma creates_append: "creates (xs @ ys) = creates xs @ creates ys"
  by (induction xs rule: creates.induct) simp_all

lemma calls_append: "calls (xs @ ys) = calls xs @ calls ys"
  by (induction xs rule: calls.induct) simp_all

subsection \<open>measureString and the point size\<close>

lemma measureString_nil: "snd (measureString E fnt size' dpi' hinting text) = None"
  by (simp add: measureString_def)

lemma measureString_width:
  "fst (measureString E fnt size' dpi' hinting text) =
     sint (MeasureString E (NewFace fnt \<lparr>Size = size', DPI = dpi', Hinting = hinting\<rparr>) text) div 64"
  by (simp add: measureString_def sint_signed_drop_bit_eq drop_bit_eq_div)

text \<open>
  Doubling a positive number \<open>k\<close> times until it lies between \<open>2^52\<close> and \<open>2^53\<close>.
\<close>

lemma normalise_up:
  "0 < x \<Longrightarrow> 2 ^ 52 \<le> x * 2 ^ k \<Longrightarrow> x * 2 ^ k < 2 ^ 53 \<Longrightarrow> k < n \<Longrightarrow>
   normalise n x e = Some (x * 2 ^ k, e - int k)"
proof (induction k arbitrary: n x e)
  case 0
  then obtain m where "n = Suc m" by (cases n) auto
  with 0 show ?case by simp
next
  case (Suc k)
  then obtain m where n: "n = Suc m" and m: "k < m" by (cases n) auto
  have "x * 2 < 2 ^ 53"
  proof -
    have "x * 2 \<le> x * 2 ^ Suc k" using Suc.prems(1) by (simp add: self_le_power)
    with Suc.prems(3) show ?thesis by linarith
  qed
  then have small: "x < 2 ^ 52" by simp
  have "normalise m (2 * x) (e - 1) = Some (2 * x * 2 ^ k, e - 1 - int k)"
    using Suc.prems m by (intro Suc.IH) (simp_all add: mult.assoc mult.left_commute)
  with small n show ?case by (simp add: mult.assoc mult.left_commute)
qed

lemma floor_8_9: "\<lfloor>(72057594037927936 / 9 :: rat)\<rfloor> = 8006399337547548"
  by (simp add: floor_eq_iff)

lemma floor_product: "\<lfloor>(162129586585337847 / 32 :: rat)\<rfloor> = 5066549580791807"
  by (simp add: floor_eq_iff)

lemma fl64_10368: "fl64 (144 * 72) = 10368"
  using normalise_up [of 10368 39 1075 0]
  by (simp add: fl64_def round_even_def scale2_def Let_def)

lemma fl64_8_9: "fl64 (64 / 72) = 8006399337547548 / 2 ^ 53"
  using normalise_up [of "8 / 9" 53 1075 0]
  by (simp add: fl64_def round_even_def scale2_def Let_def floor_8_9)

lemma fl64_product: "fl64 (10368 * (8006399337547548 / 2 ^ 53)) = 9216"
  using normalise_up [of "10368 * (8006399337547548 / 2 ^ 53)" 39 1075 0]
  by (simp add: fl64_def round_even_def scale2_def Let_def floor_product)

lemma fixed_144pt: "trunc (fl64 (fl64 (144 * 72) * fl64 (64 / 72))) = 9216"
  by (simp only: fl64_10368 fl64_8_9 fl64_product) (simp add: trunc_def)

lemma PointToFixed_fontSize: "c_dpi c = 72 \<Longrightarrow> PointToFixed c fontSize = 9216"
  by (simp only: PointToFixed_def fontSize_def fixed_144pt) simp

lemma c_dpi_setupContext: "c_dpi (setupContext ttFont rgbaImg) = 72"
  by (simp add: setupContext_def NewContext_def dpi_def)

lemma shift_9216: "sint (signed_drop_bit 6 (9216 :: 32 word)) = 144"
  by (simp add: sint_signed_drop_bit_eq drop_bit_eq_div)

lemma startY_v2_setupContext: "startY_v2 (setupContext ttFont rgbaImg) = 164"
  by (simp add: startY_v2_def paddingY_def PointToFixed_fontSize c_dpi_setupContext shift_9216)

lemma startY_v1_value: "startY_v1 = 164"
  by (simp add: startY_v1_def paddingY_def fontSize_def dpi_def trunc_def)

text \<open>
  Claim C6. The baseline is the top padding of 20 pixels plus the font size in pixels at
  72 DPI, 144 for the fixed 144pt size: \<open>startY = 164\<close> in both revisions. The first
  revision's \<^verbatim>\<open>int(fontSize*dpi/72.0)\<close> and the second's
  \<^verbatim>\<open>int(c.PointToFixed(fontSize)>>6)\<close>, on the context \<^verbatim>\<open>run\<close> sets up, are both 144.
\<close>

theorem startY_is_164:
  "startY_v1 = 164 \<and>
   startY_v2 (setupContext ttFont rgbaImg) = 164 \<and>
   trunc (fontSize * dpi / 72) = 144 \<and>
   sint (signed_drop_bit 6 (PointToFixed (setupContext ttFont rgbaImg) fontSize)) = 144"
  by (simp add: startY_v1_value startY_v2_setupContext PointToFixed_fontSize
      c_dpi_setupContext shift_9216) (simp add: fontSize_def dpi_def trunc_def)

subsection \<open>The printed lines of each stage\<close>

lemma stderr_outline_v2: "stderr (fst (outline_v2 E c t x y offs img)) = []"
  by (induction offs arbitrary: img) (simp_all add: Let_def split: option.splits)

lemma stderr_encode_v2: "stderr (events (encode_v2 E d first img)) = []"
  by (simp add: encode_v2_def split: option.splits)

lemma stderr_draw_v2: "stderr (events (draw_v2 E c t x y d img)) = []"
  by (simp add: draw_v2_def Let_def stderr_append stderr_outline_v2 stderr_encode_v2
      split: option.splits prod.splits)

lemma stderr_render_v2: "stderr (events (render_v2 E t d)) = []"
  by (simp add: render_v2_def Let_def stderr_append stderr_draw_v2 measureString_nil
      split: option.splits sum.splits)

lemma stderr_run: "stderr (events (run E t out)) = []"
  by (simp add: run_def Let_def stderr_append stderr_render_v2 split: option.splits)

lemma err_encode_v2: "err (encode_v2 E d first img) \<noteq> Some (MeasuringTextWidth e)"
  by (simp add: encode_v2_def split: option.splits go_error.splits)

lemma err_draw_v2: "err (draw_v2 E c t x y d img) \<noteq> Some (MeasuringTextWidth e)"
  by (simp add: draw_v2_def err_encode_v2 Let_def split: option.splits prod.splits)

lemma err_render_v2: "err (render_v2 E t d) \<noteq> Some (MeasuringTextWidth e)"
  by (simp add: render_v2_def measureString_nil err_draw_v2 Let_def split: option.splits sum.splits)

lemma err_run: "err (run E t out) \<noteq> Some (MeasuringTextWidth e)"
  by (simp add: run_def err_render_v2 Let_def split: option.splits)

lemma stderr_outline_v1:
  "FatalMeasure e \<notin> set (stderr (fst (outline_v1 E c t x y offs img)))"
  by (induction offs arbitrary: img) (simp_all add: Let_def split: option.splits)

lemma stderr_encode_v1: "FatalMeasure e \<notin> set (stderr (steps (encode_v1 E d first img)))"
  by (simp add: encode_v1_def Let_def split: option.splits go_error.splits)

lemma stderr_draw_v1: "FatalMeasure e \<notin> set (stderr (steps (draw_v1 E c t x y d img)))"
  by (simp add: draw_v1_def Let_def stderr_append stderr_outline_v1 stderr_encode_v1
      split: option.splits)

lemma stderr_render_v1: "FatalMeasure e \<notin> set (stderr (steps (render_v1 E t d)))"
  by (simp add: render_v1_def measureString_nil Let_def stderr_append stderr_draw_v1
      split: option.splits sum.splits)

lemma no_FatalMeasure_main_v1: "FatalMeasure e \<notin> set (stderr (trace (main_v1 E Args)))"
  by (simp add: main_v1_def usage_def Let_def stderr_append stderr_render_v1
      split: option.splits)

lemma no_measure_error_main_v2:
  "ErrorLine (MeasuringTextWidth e) \<notin> set (stderr (trace (main_v2 E Args)))"
  using err_run [of E _ _ e]
  by (auto simp add: main_v2_def usage_def Let_def stderr_append stderr_run
      split: option.splits)

text \<open>
  Claim C10. \<^verbatim>\<open>measureString\<close> never fails: for every font, size, DPI, hinting mode and
  text the returned error is \<^verbatim>\<open>nil\<close>, and the width is the 26.6 fixed-point width of the
  text shifted right by 6 bits, that is divided by 64 and rounded down. So the error
  branch of its callers cannot be taken: \<^verbatim>\<open>run\<close> never returns the "measuring text
  width" error, and neither revision prints it.
\<close>

theorem measureString_never_fails:
  "snd (measureString E fnt size' dpi' hinting text) = None \<and>
   fst (measureString E fnt size' dpi' hinting text) =
     sint (MeasureString E (NewFace fnt \<lparr>Size = size', DPI = dpi', Hinting = hinting\<rparr>) text) div 64 \<and>
   err (run E memeText outputFilename) \<noteq> Some (MeasuringTextWidth e) \<and>
   FatalMeasure e \<notin> set (stderr (trace (main_v1 E Args))) \<and>
   ErrorLine (MeasuringTextWidth e) \<notin> set (stderr (trace (main_v2 E Args)))"
  by (simp add: measureString_nil measureString_width err_run no_FatalMeasure_main_v1
      no_measure_error_main_v2)

subsection \<open>Usage\<close>

text \<open>
  Claim C8. When the text argument is missing or empty, both revisions print the three
  usage lines on standard error and exit with status 1, and nothing else happens: no
  decoding, no rendering, no file is created. (\<^verbatim>\<open>os.Args\<close> holds at least the program
  name.)
\<close>

theorem usage_on_missing_text:
  assumes "Args \<noteq> []" and "length Args < 2 \<or> Args ! 1 = []"
  shows "main_v1 E Args =
           \<lparr>trace = [Stderr (UsageLine1 (Args ! 0)), Stderr UsageLine2, Stderr UsageLine3],
            first_canvas = None, written = None, status = 1\<rparr> \<and>
         main_v2 E Args = main_v1 E Args \<and>
         calls (trace (main_v1 E Args)) = [] \<and> calls (trace (main_v2 E Args)) = []"
  using assms by (auto simp add: main_v1_def main_v2_def usage_def)

theorem usage_on_missing_text_witness:
  "status (main_v1 sample_env [''memegen'']) = 1 \<and>
   status (main_v2 sample_env [''memegen'', '''']) = 1 \<and>
   trace (main_v2 sample_env [''memegen'', '''']) =
     [Stderr (UsageLine1 ''memegen''), Stderr UsageLine2, Stderr UsageLine3]"
  using usage_on_missing_text [of "[''memegen'']" sample_env]
    usage_on_missing_text [of "[''memegen'', '''']" sample_env]
  by simp

subsection \<open>The canvas\<close>

lemma Dx_baseImg: "Dx (Bounds (baseImg_of d)) = int (width d)"
  by (simp add: baseImg_of_def image_Rect_def Dx_def)

lemma Dy_baseImg: "Dy (Bounds (baseImg_of d)) = int (height d)"
  by (simp add: baseImg_of_def image_Rect_def Dy_def)

lemma Bounds_prepareCanvas: "Bounds (prepareCanvas baseImg) = Bounds baseImg"
  by (simp add: prepareCanvas_def draw_Draw_def NewRGBA_def Let_def)

lemma In_Intersect: "In p r \<Longrightarrow> In p s \<Longrightarrow> In p (Intersect r s)"
  by (auto simp add: In_def Intersect_def Empty_def ZR_def Let_def)

lemma Add_origin: "Add r (0, 0) = r"
  by (simp add: Add_def)

lemma At_prepareCanvas:
  assumes "In p (Bounds (baseImg_of d))"
  shows "At (prepareCanvas (baseImg_of d)) p = pixels d p"
proof -
  have origin: "rMin (Bounds (baseImg_of d)) = (0, 0)"
    by (simp add: baseImg_of_def image_Rect_def)
  have "In p (Intersect (Intersect (Bounds (baseImg_of d)) (Bounds (baseImg_of d)))
                (Bounds (baseImg_of d)))"
    using assms by (simp add: In_Intersect)
  then show ?thesis
    by (simp add: prepareCanvas_def draw_Draw_def NewRGBA_def Let_def origin Add_origin)
       (simp add: baseImg_of_def)
qed

lemma Bounds_Context_DrawString: "Bounds (fst (Context_DrawString E c s p img)) = Bounds img"
  by (simp add: Context_DrawString_def Let_def)

lemma Bounds_outline_v1: "Bounds (snd (outline_v1 E c t x y offs img)) = Bounds img"
  by (induction offs arbitrary: img) (simp_all add: Let_def Bounds_Context_DrawString)

lemma Bounds_outline_v2: "Bounds (fst (snd (outline_v2 E c t x y offs img))) = Bounds img"
  by (induction offs arbitrary: img)
     (simp_all add: Let_def Bounds_Context_DrawString split: option.splits)

subsection \<open>The calls of DrawString\<close>

lemma draws_outline_v1:
  "draws (fst (outline_v1 E c t x y offs img)) =
     map (\<lambda>off. (c_src c, t, Pt (x + fst off) (y + snd off))) offs"
  by (induction offs arbitrary: img) (simp_all add: Let_def draws_append split: option.splits)

lemma draws_outline_v2:
  "snd (snd (outline_v2 E c t x y offs img)) = None \<Longrightarrow>
   draws (fst (outline_v2 E c t x y offs img)) =
     map (\<lambda>off. (c_src c, t, Pt (x + fst off) (y + snd off))) offs"
  by (induction offs arbitrary: img) (simp_all add: Let_def split: option.splits)

lemma draws_encode_v2: "draws (events (encode_v2 E d first img)) = []"
  by (simp add: encode_v2_def split: option.splits)

lemma draws_encode_v1: "draws (steps (encode_v1 E d first img)) = []"
  by (simp add: encode_v1_def Let_def split: option.splits go_error.splits)

lemma draws_draw_v2:
  "err (draw_v2 E c t x y d img) = None \<Longrightarrow>
   draws (events (draw_v2 E c t x y d img)) =
     map (\<lambda>off. (Some image_Black, t, Pt (x + fst off) (y + snd off))) offsets
     @ [(Some image_White, t, Pt x y)]"
  by (simp add: draw_v2_def Let_def draws_append draws_outline_v2 draws_encode_v2
      outlineColor_def fillColor_def split: option.splits prod.splits)

lemma draws_draw_v1:
  "draws (steps (draw_v1 E c t x y d img)) =
     map (\<lambda>off. (Some image_Black, t, Pt (x + fst off) (y + snd off))) offsets
     @ [(Some image_White, t, Pt x y)]"
  by (simp add: draw_v1_def Let_def draws_append draws_outline_v1 draws_encode_v1
      outlineColor_def fillColor_def split: option.splits)

lemma draws_render_v2:
  assumes "image_Decode E = Inr d" and "ParseFont E = Inr f"
    and "err (render_v2 E t dst) = None"
  shows "draws (events (render_v2 E t dst)) =
     map (\<lambda>off. (Some image_Black, t,
                  Pt (startX_v2 (int (width d)) (fst (measureString E f fontSize dpi HintingFull t))
                      + fst off) (164 + snd off))) offsets
     @ [(Some image_White, t,
         Pt (startX_v2 (int (width d)) (fst (measureString E f fontSize dpi HintingFull t))) 164)]"
  using assms
  by (simp add: render_v2_def Let_def measureString_nil draws_append draws_draw_v2
      startY_v2_setupContext Dx_baseImg)

lemma draws_render_v1:
  assumes "image_Decode E = Inr d" and "ParseFont E = Inr f"
  shows "draws (steps (render_v1 E t dst)) =
     map (\<lambda>off. (Some image_Black, t,
                  Pt (startX_v1 (int (width d)) (fst (measureString E f fontSize dpi HintingFull t))
                      + fst off) (164 + snd off))) offsets
     @ [(Some image_White, t,
         Pt (startX_v1 (int (width d)) (fst (measureString E f fontSize dpi HintingFull t))) 164)]"
  using assms
  by (simp add: render_v1_def Let_def measureString_nil draws_append draws_draw_v1
      startY_v1_value Dx_baseImg)

lemma draws_run:
  assumes "image_Decode E = Inr d" and "ParseFont E = Inr f"
    and "err (run E t out) = None"
  shows "draws (events (run E t out)) =
     map (\<lambda>off. (Some image_Black, t,
                  Pt (startX_v2 (int (width d)) (fst (measureString E f fontSize dpi HintingFull t))
                      + fst off) (164 + snd off))) offsets
     @ [(Some image_White, t,
         Pt (startX_v2 (int (width d)) (fst (measureString E f fontSize dpi HintingFull t))) 164)]"
  using assms
  by (auto simp add: run_def Let_def draws_append draws_render_v2 split: option.splits if_splits)

lemma draws_main_v1:
  assumes "image_Decode E = Inr d" and "ParseFont E = Inr f"
    and "1 < length Args" and "Args ! 1 \<noteq> []" and "status (main_v1 E Args) = 0"
  shows "draws (trace (main_v1 E Args)) =
     map (\<lambda>off. (Some image_Black, ToUpper E (Args ! 1),
                  Pt (startX_v1 (int (width d))
                        (fst (measureString E f fontSize dpi HintingFull (ToUpper E (Args ! 1))))
                      + fst off) (164 + snd off))) offsets
     @ [(Some image_White, ToUpper E (Args ! 1),
         Pt (startX_v1 (int (width d))
               (fst (measureString E f fontSize dpi HintingFull (ToUpper E (Args ! 1))))) 164)]"
  using assms
  by (auto simp add: main_v1_def Let_def draws_append draws_render_v1
      split: option.splits if_splits)

lemma offsets_value:
  "offsets = [(-2, -2), (0, -2), (2, -2), (-2, 0), (2, 0), (-2, 2), (0, 2), (2, 2)]"
  by (simp add: offsets_def outlineThickness_def)

lemma offsets_set: "set offsets = ({-2, 0, 2} \<times> {-2, 0, 2}) - {(0, 0)}"
  by (auto simp add: offsets_value)

lemma offsets_distinct: "distinct offsets \<and> length offsets = 8"
  by (simp add: offsets_value)

subsection \<open>The start of the text\<close>

lemma startX_v2_clamped:
  "startX_v2 imageWidth textWidth =
     (if imageWidth < textWidth then 0 else (imageWidth - textWidth) div 2) \<and>
   0 \<le> startX_v2 imageWidth textWidth"
  by (auto simp add: startX_v2_def Let_def signed_divide_int_def sgn_if)

lemma startX_v1_unclamped:
  "startX_v1 imageWidth textWidth =
     (if imageWidth < textWidth then - ((textWidth - imageWidth) div 2)
      else (imageWidth - textWidth) div 2)"
  by (auto simp add: startX_v1_def signed_divide_int_def sgn_if)

subsection \<open>Runs in the sample environment\<close>

lemma sample_decode: "image_Decode sample_env = Inr sample_template"
  by (simp add: sample_env_def)

lemma sample_font: "ParseFont sample_env = Inr (Font ''Bebas Neue'')"
  by (simp add: sample_env_def)

lemma sample_width:
  "fst (measureString sample_env f fontSize dpi HintingFull text) = sint (3840 * word_of_nat (length text) :: 32 word) div 64"
  by (simp add: measureString_width sample_env_def)

lemmas v2_defs = run_def render_v2_def draw_v2_def encode_v2_def Let_def
  measureString_def offsets_def Context_DrawString_def

lemmas v1_defs = main_v1_def render_v1_def draw_v1_def encode_v1_def Let_def
  measureString_def offsets_def Context_DrawString_def

lemmas upper_defs = ToUpper_def isASCII_def upperByte_def char_of_def bit_Suc_0_iff

lemma run_HI: "err (run sample_env ''HI'' []) = None"
  by (simp add: v2_defs sample_env_def)

lemma main_v1_hi: "status (main_v1 sample_env [''memegen'', ''hi'']) = 0"
  by (simp add: v1_defs sample_env_def)

lemma upper_hi: "ToUpper sample_env ''hi'' = ''HI''"
  by (simp add: upper_defs)

subsection \<open>Nine draws\<close>

text \<open>
  Claim C5. The text is drawn exactly nine times, in a fixed order: eight times in black,
  once at each offset \<open>(dx, dy)\<close> with \<open>dx\<close> and \<open>dy\<close> in \<open>{-2, 0, 2}\<close> other than
  \<open>(0, 0)\<close>, then once in white at \<open>(startX, startY)\<close>. This holds of every run of the
  second revision's \<^verbatim>\<open>run\<close> that returns no error and of every run of the first
  revision that exits with status 0.
\<close>

theorem nine_draws:
  assumes "image_Decode E = Inr d" and "ParseFont E = Inr f"
  shows "(err (run E text out) = None \<longrightarrow>
         (let startX = startX_v2 (int (width d)) (fst (measureString E f fontSize dpi HintingFull text))
          in draws (events (run E text out)) =
               map (\<lambda>(dx, dy). (Some image_Black, text, Pt (startX + dx) (164 + dy)))
                 [(-2, -2), (0, -2), (2, -2), (-2, 0), (2, 0), (-2, 2), (0, 2), (2, 2)]
               @ [(Some image_White, text, Pt startX 164)])) \<and>
     (1 < length Args \<and> Args ! 1 \<noteq> [] \<and> status (main_v1 E Args) = 0 \<longrightarrow>
         (let text = ToUpper E (Args ! 1);
              startX = startX_v1 (int (width d)) (fst (measureString E f fontSize dpi HintingFull text))
          in draws (trace (main_v1 E Args)) =
               map (\<lambda>(dx, dy). (Some image_Black, text, Pt (startX + dx) (164 + dy)))
                 [(-2, -2), (0, -2), (2, -2), (-2, 0), (2, 0), (-2, 2), (0, 2), (2, 2)]
               @ [(Some image_White, text, Pt startX 164)])) \<and>
     set offsets = ({-2, 0, 2} \<times> {-2, 0, 2}) - {(0, 0)} \<and> distinct offsets \<and> length offsets = 8"
  using assms
  by (simp add: draws_run draws_main_v1 offsets_set offsets_distinct Let_def)
     (simp add: offsets_value)

theorem nine_draws_witness:
  "err (run sample_env ''HI'' []) = None \<and>
   status (main_v1 sample_env [''memegen'', ''hi'']) = 0 \<and>
   draws (events (run sample_env ''HI'' [])) =
     [(Some image_Black, ''HI'', Pt 338 162), (Some image_Black, ''HI'', Pt 340 162),
      (Some image_Black, ''HI'', Pt 342 162), (Some image_Black, ''HI'', Pt 338 164),
      (Some image_Black, ''HI'', Pt 342 164), (Some image_Black, ''HI'', Pt 338 166),
      (Some image_Black, ''HI'', Pt 340 166), (Some image_Black, ''HI'', Pt 342 166),
      (Some image_White, ''HI'', Pt 340 164)] \<and>
   draws (trace (main_v1 sample_env [''memegen'', ''hi''])) = draws (events (run sample_env ''HI'' []))"
  using nine_draws [OF sample_decode sample_font, of "''HI''" "[]" "[''memegen'', ''hi'']"]
    run_HI main_v1_hi
  by (simp add: Let_def upper_hi sample_width sample_template_def startX_v1_def startX_v2_def
      signed_divide_int_def)

subsection \<open>A text wider than the template\<close>

lemma wide_text: "ToUpper sample_env ''aaaaaaaaaaaaaaaaa'' = ''AAAAAAAAAAAAAAAAA''"
  by (simp add: upper_defs)

lemma main_v1_wide: "status (main_v1 sample_env [''memegen'', ''aaaaaaaaaaaaaaaaa'']) = 0"
  by (simp add: v1_defs sample_env_def)

lemma run_wide: "err (run sample_env ''AAAAAAAAAAAAAAAAA'' []) = None"
  by (simp add: v2_defs sample_env_def)

text \<open>
  Claim C1. The start X is \<open>(canvas width - text width) / 2\<close>, clamped to 0 when the text
  is wider than the canvas, so that the draw origin is never negative. The second
  revision does this on every input (\<open>startX_v2_clamped\<close>). The first revision has no
  clamp: on an 800 pixel wide template a text measuring 1020 pixels gets
  \<open>startX = -110\<close>, and the white fill is drawn there; the second revision draws the same
  text at 0.
\<close>

theorem startX_v1_negative:
  "startX_v1 800 1020 = - 110 \<and>
   last (draws (trace (main_v1 sample_env [''memegen'', ''aaaaaaaaaaaaaaaaa'']))) =
     (Some image_White, ''AAAAAAAAAAAAAAAAA'', Pt (- 110) 164) \<and>
   last (draws (events (run sample_env ''AAAAAAAAAAAAAAAAA'' []))) =
     (Some image_White, ''AAAAAAAAAAAAAAAAA'', Pt 0 164)"
  using draws_main_v1 [OF sample_decode sample_font, of "[''memegen'', ''aaaaaaaaaaaaaaaaa'']"]
    draws_run [OF sample_decode sample_font run_wide] main_v1_wide
  by (simp add: wide_text sample_width sample_template_def startX_v1_def startX_v2_def
      signed_divide_int_def)

subsection \<open>The text that is measured and drawn\<close>

lemma nine_texts: "replicate (length offsets) t @ [t] = replicate 9 t"
  by (simp add: offsets_value eval_nat_numeral)

lemma ten_texts: "t # replicate 9 t = replicate 10 t"
  by (simp add: eval_nat_numeral)

lemma texts_outline_v1: "texts (fst (outline_v1 E c t x y offs img)) = replicate (length offs) t"
  by (induction offs arbitrary: img) (simp_all add: Let_def texts_append split: option.splits)

lemma texts_outline_v2_sub: "set (texts (fst (outline_v2 E c t x y offs img))) \<subseteq> {t}"
  by (induction offs arbitrary: img) (simp_all add: Let_def split: option.splits)

lemma texts_outline_v2:
  "snd (snd (outline_v2 E c t x y offs img)) = None \<Longrightarrow>
   texts (fst (outline_v2 E c t x y offs img)) = replicate (length offs) t"
  by (induction offs arbitrary: img) (simp_all add: Let_def split: option.splits)

lemma texts_encode_v2: "texts (events (encode_v2 E d first img)) = []"
  by (simp add: encode_v2_def split: option.splits)

lemma texts_encode_v1: "texts (steps (encode_v1 E d first img)) = []"
  by (simp add: encode_v1_def Let_def split: option.splits go_error.splits)

lemma texts_draw_v2_sub: "set (texts (events (draw_v2 E c t x y d img))) \<subseteq> {t}"
  using texts_outline_v2_sub [of E "c\<lparr>c_src := Some outlineColor\<rparr>" t x y offsets img]
  by (simp add: draw_v2_def Let_def texts_append texts_encode_v2
      split: option.splits prod.splits)

lemma texts_draw_v2:
  "err (draw_v2 E c t x y d img) = None \<Longrightarrow>
   texts (events (draw_v2 E c t x y d img)) = replicate 9 t"
  by (simp add: draw_v2_def Let_def texts_append texts_outline_v2 texts_encode_v2
      nine_texts split: option.splits prod.splits)

lemma texts_draw_v1: "texts (steps (draw_v1 E c t x y d img)) = replicate 9 t"
  by (simp add: draw_v1_def Let_def texts_append texts_outline_v1 texts_encode_v1
      nine_texts split: option.splits)

lemma texts_render_v2_sub: "set (texts (events (render_v2 E t d))) \<subseteq> {t}"
  using texts_draw_v2_sub [of E _ t _ _ d]
  by (simp add: render_v2_def Let_def measureString_nil split: sum.splits)

lemma texts_render_v2:
  "err (render_v2 E t d) = None \<Longrightarrow> texts (events (render_v2 E t d)) = replicate 10 t"
  by (simp add: render_v2_def Let_def measureString_nil texts_draw_v2 ten_texts
      split: sum.splits)

lemma texts_render_v1_sub: "set (texts (steps (render_v1 E t d))) \<subseteq> {t}"
  by (simp add: render_v1_def Let_def measureString_nil texts_draw_v1 split: sum.splits)

lemma texts_render_v1:
  "\<not> fatal (render_v1 E t d) \<Longrightarrow> texts (steps (render_v1 E t d)) = replicate 10 t"
  by (simp add: render_v1_def Let_def measureString_nil texts_draw_v1 ten_texts
      split: sum.splits)

lemma texts_run_sub: "set (texts (events (run E t out))) \<subseteq> {t}"
  using texts_render_v2_sub [of E t]
  by (simp add: run_def Let_def texts_append split: option.splits)

lemma texts_run:
  "err (run E t out) = None \<Longrightarrow> texts (events (run E t out)) = replicate 10 t"
  by (auto simp add: run_def Let_def texts_append texts_render_v2 split: option.splits if_splits)

lemma texts_main_v2_sub:
  "set (texts (trace (main_v2 E Args))) \<subseteq> {ToUpper E (Args ! 1)}"
  using texts_run_sub [of E "ToUpper E (Args ! 1)"]
  by (auto simp add: main_v2_def usage_def Let_def texts_append split: option.splits)

lemma texts_main_v1_sub:
  "set (texts (trace (main_v1 E Args))) \<subseteq> {ToUpper E (Args ! 1)}"
  using texts_render_v1_sub [of E "ToUpper E (Args ! 1)"]
  by (auto simp add: main_v1_def usage_def Let_def texts_append split: option.splits)

lemma texts_main_v2:
  "status (main_v2 E Args) = 0 \<Longrightarrow>
   texts (trace (main_v2 E Args)) = replicate 10 (ToUpper E (Args ! 1))"
  by (auto simp add: main_v2_def usage_def Let_def texts_append texts_run
      split: option.splits if_splits)

lemma texts_main_v1:
  "status (main_v1 E Args) = 0 \<Longrightarrow>
   texts (trace (main_v1 E Args)) = replicate 10 (ToUpper E (Args ! 1))"
  by (auto simp add: main_v1_def usage_def Let_def texts_append texts_render_v1
      split: option.splits if_splits)

text \<open>
  Claim C4. For every input, the text that is measured and drawn is the upper-cased form
  of the first command-line argument (\<^verbatim>\<open>strings.ToUpper(os.Args[1])\<close>) and nothing else:
  every text handed to \<^verbatim>\<open>measureString\<close> or \<^verbatim>\<open>DrawString\<close> is that string, in both
  revisions, and a run that exits with status 0 has handed it over ten times (one
  measurement, nine draws).
\<close>

theorem text_is_uppercased:
  assumes "1 < length Args"
  shows "set (texts (trace (main_v1 E Args))) \<subseteq> {ToUpper E (Args ! 1)} \<and>
         set (texts (trace (main_v2 E Args))) \<subseteq> {ToUpper E (Args ! 1)} \<and>
         (status (main_v1 E Args) = 0 \<longrightarrow>
            texts (trace (main_v1 E Args)) = replicate 10 (ToUpper E (Args ! 1))) \<and>
         (status (main_v2 E Args) = 0 \<longrightarrow>
            texts (trace (main_v2 E Args)) = replicate 10 (ToUpper E (Args ! 1)))"
  using texts_main_v1_sub texts_main_v2_sub texts_main_v1 texts_main_v2 by blast

lemma main_v2_hi: "status (main_v2 sample_env [''memegen'', ''hi'']) = 0"
  by (simp add: main_v2_def v2_defs sample_env_def)

theorem text_is_uppercased_witness:
  "status (main_v1 sample_env [''memegen'', ''hi'']) = 0 \<and>
   status (main_v2 sample_env [''memegen'', ''hi'']) = 0 \<and>
   texts (trace (main_v1 sample_env [''memegen'', ''hi''])) = replicate 10 ''HI'' \<and>
   texts (trace (main_v2 sample_env [''memegen'', ''hi''])) = replicate 10 ''HI''"
  using text_is_uppercased [of "[''memegen'', ''hi'']" sample_env] main_v1_hi main_v2_hi
  by (simp add: upper_hi)

subsection \<open>The destination\<close>

lemma outputName_nonempty: "fst (outputName E filePath) \<noteq> []"
  by (cases filePath) (simp_all add: outputName_def HasSuffix_def ToLower_def isASCII_def)

lemma outputName_eq:
  "outputName E filePath =
     (if HasSuffix (ToLower E filePath) ''.png'' then (filePath, False)
      else (filePath @ ''.png'', True))"
  by (simp add: outputName_def)

lemma creates_outline_v2: "creates (fst (outline_v2 E c t x y offs img)) = []"
  by (induction offs arbitrary: img) (simp_all add: Let_def split: option.splits)

lemma creates_outline_v1: "creates (fst (outline_v1 E c t x y offs img)) = []"
  by (induction offs arbitrary: img) (simp_all add: Let_def creates_append split: option.splits)

lemma encodes_outline_v2: "encodes (fst (outline_v2 E c t x y offs img)) = []"
  by (induction offs arbitrary: img) (simp_all add: Let_def split: option.splits)

lemma encodes_outline_v1: "encodes (fst (outline_v1 E c t x y offs img)) = []"
  by (induction offs arbitrary: img) (simp_all add: Let_def encodes_append split: option.splits)

lemma creates_render_v2: "creates (events (render_v2 E t d)) = []"
  by (simp add: render_v2_def draw_v2_def encode_v2_def Let_def measureString_nil
      creates_append creates_outline_v2 split: sum.splits option.splits prod.splits)

lemma creates_render_v1: "creates (steps (render_v1 E t d)) = []"
  by (simp add: render_v1_def draw_v1_def encode_v1_def Let_def measureString_nil
      creates_append creates_outline_v1 split: sum.splits option.splits go_error.splits)

lemma encodes_render_v2: "set (encodes (events (render_v2 E t d))) \<subseteq> {d}"
  by (simp add: render_v2_def draw_v2_def encode_v2_def Let_def measureString_nil
      encodes_append encodes_outline_v2 split: sum.splits option.splits prod.splits)

lemma encodes_render_v1: "set (encodes (steps (render_v1 E t d))) \<subseteq> {d}"
  by (simp add: render_v1_def draw_v1_def encode_v1_def Let_def measureString_nil
      encodes_append encodes_outline_v1 split: sum.splits option.splits go_error.splits)

lemma png_render_v2: "png (render_v2 E t d) = Some (d', img) \<Longrightarrow> d' = d"
  by (auto simp add: render_v2_def draw_v2_def encode_v2_def Let_def measureString_nil
      split: sum.splits option.splits prod.splits)

lemma pngOut_render_v1: "pngOut (render_v1 E t d) = Some (d', img) \<Longrightarrow> d' = d"
  by (auto simp add: render_v1_def draw_v1_def encode_v1_def Let_def measureString_nil
      split: sum.splits option.splits go_error.splits if_splits)

lemma main_v2_named:
  assumes "2 < length Args" and "Args ! 1 \<noteq> []"
  shows "(\<exists>r rest. trace (main_v2 E Args) =
            (if snd (outputName E (Args ! 2)) then [Stderr (WarnNotPng (Args ! 2))] else [])
            @ Create (fst (outputName E (Args ! 2))) r # rest) \<and>
         creates (trace (main_v2 E Args)) = [fst (outputName E (Args ! 2))] \<and>
         set (encodes (trace (main_v2 E Args))) \<subseteq> {File (fst (outputName E (Args ! 2)))} \<and>
         (\<forall>d img. written (main_v2 E Args) = Some (d, img) \<longrightarrow>
            d = File (fst (outputName E (Args ! 2))))"
  using assms outputName_nonempty [of E "Args ! 2"]
    encodes_render_v2 [of E "ToUpper E (Args ! 1)" "File (fst (outputName E (Args ! 2)))"]
    png_render_v2 [of E "ToUpper E (Args ! 1)" "File (fst (outputName E (Args ! 2)))"]
  by (auto simp add: main_v2_def run_def Let_def creates_append encodes_append
      creates_render_v2 split: option.splits)

lemma main_v2_unnamed:
  assumes "length Args = 2" and "Args ! 1 \<noteq> []"
  shows "creates (trace (main_v2 E Args)) = [] \<and>
         set (encodes (trace (main_v2 E Args))) \<subseteq> {os_Stdout} \<and>
         (\<forall>d img. written (main_v2 E Args) = Some (d, img) \<longrightarrow> d = os_Stdout)"
  using assms encodes_render_v2 [of E "ToUpper E (Args ! 1)" os_Stdout]
    png_render_v2 [of E "ToUpper E (Args ! 1)" os_Stdout]
  by (auto simp add: main_v2_def run_def Let_def creates_append encodes_append
      creates_render_v2 split: option.splits)

lemma main_v1_named:
  assumes "2 < length Args" and "Args ! 1 \<noteq> []"
  shows "(\<exists>r rest. trace (main_v1 E Args) =
            (if snd (outputName E (Args ! 2)) then [Stderr (WarnNotPng (Args ! 2))] else [])
            @ Create (fst (outputName E (Args ! 2))) r # rest) \<and>
         creates (trace (main_v1 E Args)) = [fst (outputName E (Args ! 2))] \<and>
         set (encodes (trace (main_v1 E Args))) \<subseteq> {File (fst (outputName E (Args ! 2)))} \<and>
         (\<forall>d img. written (main_v1 E Args) = Some (d, img) \<longrightarrow>
            d = File (fst (outputName E (Args ! 2))))"
  using assms
    encodes_render_v1 [of E "ToUpper E (Args ! 1)" "File (fst (outputName E (Args ! 2)))"]
    pngOut_render_v1 [of E "ToUpper E (Args ! 1)" "File (fst (outputName E (Args ! 2)))"]
  by (auto simp add: main_v1_def Let_def creates_append encodes_append
      creates_render_v1 split: option.splits)

lemma main_v1_unnamed:
  assumes "length Args = 2" and "Args ! 1 \<noteq> []"
  shows "creates (trace (main_v1 E Args)) = [] \<and>
         set (encodes (trace (main_v1 E Args))) \<subseteq> {os_Stdout} \<and>
         (\<forall>d img. written (main_v1 E Args) = Some (d, img) \<longrightarrow> d = os_Stdout)"
  using assms encodes_render_v1 [of E "ToUpper E (Args ! 1)" os_Stdout]
    pngOut_render_v1 [of E "ToUpper E (Args ! 1)" os_Stdout]
  by (auto simp add: main_v1_def Let_def creates_append encodes_append
      creates_render_v1 split: option.splits)

subsection \<open>The output name\<close>

lemma lower_cases:
  "p \<in> {CHR ''p'', CHR ''P''} \<Longrightarrow> lowerByte p = CHR ''p''"
  "n \<in> {CHR ''n'', CHR ''N''} \<Longrightarrow> lowerByte n = CHR ''n''"
  "g \<in> {CHR ''g'', CHR ''G''} \<Longrightarrow> lowerByte g = CHR ''g''"
  "lowerByte CHR ''.'' = CHR ''.''"
  by (auto simp add: lowerByte_def char_of_def bit_Suc_0_iff)

lemma ascii_cases:
  "p \<in> {CHR ''p'', CHR ''P''} \<Longrightarrow> (of_char p :: nat) < 128"
  "n \<in> {CHR ''n'', CHR ''N''} \<Longrightarrow> (of_char n :: nat) < 128"
  "g \<in> {CHR ''g'', CHR ''G''} \<Longrightarrow> (of_char g :: nat) < 128"
  by auto

lemma outputName_any_case:
  assumes "isASCII stem" and "p \<in> {CHR ''p'', CHR ''P''}" and "n \<in> {CHR ''n'', CHR ''N''}"
    and "g \<in> {CHR ''g'', CHR ''G''}"
  shows "outputName E (stem @ [CHR ''.'', p, n, g]) = (stem @ [CHR ''.'', p, n, g], False)"
proof -
  have "isASCII (stem @ [CHR ''.'', p, n, g])"
    using assms by (simp add: isASCII_def ascii_cases)
  then have "ToLower E (stem @ [CHR ''.'', p, n, g]) = map lowerByte stem @ ''.png''"
    using assms by (simp add: ToLower_def lower_cases)
  then show ?thesis
    by (simp add: outputName_def HasSuffix_def)
qed

lemmas lower_defs = ToLower_def isASCII_def lowerByte_def char_of_def bit_Suc_0_iff HasSuffix_def

lemma suffix_out: "\<not> HasSuffix (ToLower sample_env ''out'') ''.png''"
  by (simp add: lower_defs)

lemma suffix_out_PNG: "HasSuffix (ToLower sample_env ''out.PNG'') ''.png''"
  by (simp add: lower_defs)

subsection \<open>The PNG\<close>

lemma png_draw_v2:
  "png (draw_v2 E c t x y d img) = Some (d', i) \<Longrightarrow> Bounds i = Bounds img"
  using Bounds_outline_v2 [of E "c\<lparr>c_src := Some outlineColor\<rparr>" t x y offsets img]
  by (auto simp add: draw_v2_def encode_v2_def Let_def Bounds_Context_DrawString
      split: option.splits prod.splits)

lemma pngOut_draw_v1:
  "pngOut (draw_v1 E c t x y d img) = Some (d', i) \<Longrightarrow> Bounds i = Bounds img"
  using Bounds_outline_v1 [of E "c\<lparr>c_src := Some outlineColor\<rparr>" t x y offsets img]
  by (auto simp add: draw_v1_def encode_v1_def Let_def Bounds_Context_DrawString
      split: option.splits go_error.splits if_splits)

lemma canvas0_draw_v2: "canvas0 (draw_v2 E c t x y d img) = Some img"
  by (simp add: draw_v2_def encode_v2_def Let_def split: option.splits prod.splits)

lemma canvas_draw_v1: "canvas (draw_v1 E c t x y d img) = Some img"
  by (simp add: draw_v1_def encode_v1_def Let_def split: option.splits go_error.splits)

lemma png_draw_v2_ok: "err (draw_v2 E c t x y d img) = None \<Longrightarrow> png (draw_v2 E c t x y d img) \<noteq> None"
  by (simp add: draw_v2_def encode_v2_def Let_def split: option.splits prod.splits)

lemma render_v2_png:
  assumes "err (render_v2 E t dst) = None"
  shows "\<exists>d img. image_Decode E = Inr d \<and> png (render_v2 E t dst) = Some (dst, img) \<and>
           canvas0 (render_v2 E t dst) = Some (prepareCanvas (baseImg_of d)) \<and>
           Bounds img = Bounds (baseImg_of d)"
proof (cases "image_Decode E")
  case (Inl e)
  with assms show ?thesis by (simp add: render_v2_def)
next
  case (Inr d)
  show ?thesis
  proof (cases "ParseFont E")
    case (Inl e)
    with Inr assms show ?thesis by (simp add: render_v2_def)
  next
    case f: (Inr f)
    let ?r = "draw_v2 E (setupContext f (prepareCanvas (baseImg_of d))) t
                (startX_v2 (Dx (Bounds (baseImg_of d)))
                   (fst (measureString E f fontSize dpi HintingFull t)))
                (startY_v2 (setupContext f (prepareCanvas (baseImg_of d)))) dst
                (prepareCanvas (baseImg_of d))"
    have ok: "err ?r = None"
      using assms Inr f by (simp add: render_v2_def Let_def measureString_nil)
    then obtain d' img where p: "png ?r = Some (d', img)"
      using png_draw_v2_ok by fastforce
    have r: "png (render_v2 E t dst) = png ?r" "canvas0 (render_v2 E t dst) = canvas0 ?r"
      using Inr f by (simp_all add: render_v2_def Let_def measureString_nil)
    have "d' = dst" using p r png_render_v2 by metis
    moreover have "Bounds img = Bounds (baseImg_of d)"
      using png_draw_v2 [OF p] by (simp add: Bounds_prepareCanvas)
    ultimately show ?thesis
      using Inr p r by (simp add: canvas0_draw_v2)
  qed
qed

lemma run_png:
  assumes "err (run E t out) = None"
  shows "\<exists>d dst img. image_Decode E = Inr d \<and> png (run E t out) = Some (dst, img) \<and>
           canvas0 (run E t out) = Some (prepareCanvas (baseImg_of d)) \<and>
           Bounds img = Bounds (baseImg_of d)"
proof (cases "out = []")
  case True
  with assms render_v2_png [of E t os_Stdout] show ?thesis
    by (auto simp add: run_def)
next
  case False
  with assms have "os_Create E out = None" and "err (render_v2 E t (File out)) = None"
    by (auto simp add: run_def Let_def split: option.splits)
  with False render_v2_png [of E t "File out"] show ?thesis
    by (auto simp add: run_def Let_def)
qed

lemma pngOut_encode_v1:
  "\<not> fatal (encode_v1 E d first img) \<Longrightarrow>
   WarnBrokenPipe \<notin> set (stderr (steps (encode_v1 E d first img))) \<Longrightarrow>
   pngOut (encode_v1 E d first img) \<noteq> None"
  by (auto simp add: encode_v1_def Let_def split: option.splits go_error.splits if_splits)

lemma pngOut_draw_v1_ok:
  "\<not> fatal (draw_v1 E c t x y d img) \<Longrightarrow>
   WarnBrokenPipe \<notin> set (stderr (steps (draw_v1 E c t x y d img))) \<Longrightarrow>
   pngOut (draw_v1 E c t x y d img) \<noteq> None"
  using pngOut_encode_v1 [of E d img]
  by (auto simp add: draw_v1_def Let_def stderr_append split: option.splits)

lemma render_v1_png:
  assumes "pngOut (render_v1 E t dst) = Some (d', img)"
  shows "\<exists>d. image_Decode E = Inr d \<and> d' = dst \<and>
           canvas (render_v1 E t dst) = Some (prepareCanvas (baseImg_of d)) \<and>
           Bounds img = Bounds (baseImg_of d)"
proof (cases "image_Decode E")
  case (Inl e)
  with assms show ?thesis by (simp add: render_v1_def)
next
  case (Inr d)
  show ?thesis
  proof (cases "ParseFont E")
    case (Inl e)
    with Inr assms show ?thesis by (simp add: render_v1_def Let_def)
  next
    case f: (Inr f)
    let ?r = "draw_v1 E (setupContext f (prepareCanvas (baseImg_of d))) t
                (startX_v1 (Dx (Bounds (baseImg_of d)))
                   (fst (measureString E f fontSize dpi HintingFull t)))
                startY_v1 dst (prepareCanvas (baseImg_of d))"
    have r: "pngOut (render_v1 E t dst) = pngOut ?r" "canvas (render_v1 E t dst) = canvas ?r"
      using Inr f by (simp_all add: render_v1_def Let_def measureString_nil)
    with assms have p: "pngOut ?r = Some (d', img)" by simp
    have "d' = dst" using assms pngOut_render_v1 by metis
    moreover have "Bounds img = Bounds (baseImg_of d)"
      using pngOut_draw_v1 [OF p] by (simp add: Bounds_prepareCanvas)
    ultimately show ?thesis
      using Inr r by (simp add: canvas_draw_v1)
  qed
qed

lemma render_v1_png_ok:
  "\<not> fatal (render_v1 E t d) \<Longrightarrow>
   WarnBrokenPipe \<notin> set (stderr (steps (render_v1 E t d))) \<Longrightarrow>
   pngOut (render_v1 E t d) \<noteq> None"
  using pngOut_draw_v1_ok [of E _ t _ _ d]
  by (auto simp add: render_v1_def Let_def measureString_nil stderr_append split: sum.splits)

lemma main_v1_png_ok:
  assumes "1 < length Args" and "Args ! 1 \<noteq> []" and "status (main_v1 E Args) = 0"
    and "WarnBrokenPipe \<notin> set (stderr (trace (main_v1 E Args)))"
  shows "written (main_v1 E Args) \<noteq> None"
  using assms render_v1_png_ok [of E "ToUpper E (Args ! 1)"]
  by (auto simp add: main_v1_def Let_def stderr_append split: option.splits if_splits)

lemma main_v1_png:
  assumes "written (main_v1 E Args) = Some (dst, img)"
  shows "\<exists>d. image_Decode E = Inr d \<and>
           first_canvas (main_v1 E Args) = Some (prepareCanvas (baseImg_of d)) \<and>
           Bounds img = Bounds (baseImg_of d)"
  using assms render_v1_png [of E "ToUpper E (Args ! 1)" _ dst img]
  by (auto simp add: main_v1_def usage_def Let_def split: option.splits if_splits)

text \<open>
  Claim C9. A successful run produces a PNG with the pixel dimensions of the template:
  the canvas is allocated with exactly the template's bounds, the template is copied in
  pixel for pixel, and that canvas, with the text drawn on it, is what the encoder gets.
  For the second revision a successful run is one in which \<^verbatim>\<open>run\<close> returns no error (for
  any text); for the first it is one that exits with status 0 without the broken-pipe
  warning.
\<close>

theorem png_has_template_dimensions:
  "(err (run E text out) = None \<longrightarrow>
      (\<exists>d dst img. image_Decode E = Inr d \<and> png (run E text out) = Some (dst, img) \<and>
         canvas0 (run E text out) = Some (prepareCanvas (baseImg_of d)) \<and>
         Bounds (prepareCanvas (baseImg_of d)) = Bounds (baseImg_of d) \<and>
         (\<forall>p. In p (Bounds (baseImg_of d)) \<longrightarrow>
               At (prepareCanvas (baseImg_of d)) p = pixels d p) \<and>
         Bounds img = Bounds (baseImg_of d) \<and>
         Dx (Bounds img) = int (width d) \<and> Dy (Bounds img) = int (height d))) \<and>
   (1 < length Args \<and> Args ! 1 \<noteq> [] \<and> status (main_v1 E Args) = 0 \<and>
    WarnBrokenPipe \<notin> set (stderr (trace (main_v1 E Args))) \<longrightarrow>
      (\<exists>d dst img. image_Decode E = Inr d \<and> written (main_v1 E Args) = Some (dst, img) \<and>
         first_canvas (main_v1 E Args) = Some (prepareCanvas (baseImg_of d)) \<and>
         Bounds (prepareCanvas (baseImg_of d)) = Bounds (baseImg_of d) \<and>
         (\<forall>p. In p (Bounds (baseImg_of d)) \<longrightarrow>
               At (prepareCanvas (baseImg_of d)) p = pixels d p) \<and>
         Bounds img = Bounds (baseImg_of d) \<and>
         Dx (Bounds img) = int (width d) \<and> Dy (Bounds img) = int (height d)))"
proof (intro conjI impI)
  assume "err (run E text out) = None"
  then obtain d dst img where "image_Decode E = Inr d" "png (run E text out) = Some (dst, img)"
    "canvas0 (run E text out) = Some (prepareCanvas (baseImg_of d))"
    "Bounds img = Bounds (baseImg_of d)"
    using run_png by blast
  then show "\<exists>d dst img. image_Decode E = Inr d \<and> png (run E text out) = Some (dst, img) \<and>
         canvas0 (run E text out) = Some (prepareCanvas (baseImg_of d)) \<and>
         Bounds (prepareCanvas (baseImg_of d)) = Bounds (baseImg_of d) \<and>
         (\<forall>p. In p (Bounds (baseImg_of d)) \<longrightarrow>
               At (prepareCanvas (baseImg_of d)) p = pixels d p) \<and>
         Bounds img = Bounds (baseImg_of d) \<and>
         Dx (Bounds img) = int (width d) \<and> Dy (Bounds img) = int (height d)"
    by (simp add: Bounds_prepareCanvas At_prepareCanvas Dx_baseImg Dy_baseImg)
next
  assume "1 < length Args \<and> Args ! 1 \<noteq> [] \<and> status (main_v1 E Args) = 0 \<and>
    WarnBrokenPipe \<notin> set (stderr (trace (main_v1 E Args)))"
  then obtain dst img where w: "written (main_v1 E Args) = Some (dst, img)"
    using main_v1_png_ok by fastforce
  then obtain d where "image_Decode E = Inr d"
    "first_canvas (main_v1 E Args) = Some (prepareCanvas (baseImg_of d))"
    "Bounds img = Bounds (baseImg_of d)"
    using main_v1_png by blast
  with w show "\<exists>d dst img. image_Decode E = Inr d \<and> written (main_v1 E Args) = Some (dst, img) \<and>
         first_canvas (main_v1 E Args) = Some (prepareCanvas (baseImg_of d)) \<and>
         Bounds (prepareCanvas (baseImg_of d)) = Bounds (baseImg_of d) \<and>
         (\<forall>p. In p (Bounds (baseImg_of d)) \<longrightarrow>
               At (prepareCanvas (baseImg_of d)) p = pixels d p) \<and>
         Bounds img = Bounds (baseImg_of d) \<and>
         Dx (Bounds img) = int (width d) \<and> Dy (Bounds img) = int (height d)"
    by (simp add: Bounds_prepareCanvas At_prepareCanvas Dx_baseImg Dy_baseImg)
qed

lemma main_v1_hi_quiet:
  "WarnBrokenPipe \<notin> set (stderr (trace (main_v1 sample_env [''memegen'', ''hi''])))"
  by (simp add: v1_defs sample_env_def upper_defs)

theorem png_has_template_dimensions_witness:
  "err (run sample_env ''HI'' []) = None \<and>
   (\<exists>dst img. png (run sample_env ''HI'' []) = Some (dst, img) \<and>
      Dx (Bounds img) = 800 \<and> Dy (Bounds img) = 600 \<and>
      canvas0 (run sample_env ''HI'' []) = Some (prepareCanvas (baseImg_of sample_template))) \<and>
   status (main_v1 sample_env [''memegen'', ''hi'']) = 0 \<and>
   (\<exists>dst img. written (main_v1 sample_env [''memegen'', ''hi'']) = Some (dst, img) \<and>
      Dx (Bounds img) = 800 \<and> Dy (Bounds img) = 600) \<and>
   At (prepareCanvas (baseImg_of sample_template)) (3, 4) = (255, 255, 255, 255)"
  using png_has_template_dimensions [of sample_env "''HI''" "[]" "[''memegen'', ''hi'']"]
    run_HI main_v1_hi main_v1_hi_quiet sample_decode
  by (auto simp add: sample_template_def In_def baseImg_of_def image_Rect_def)

subsection \<open>Errors that end the run\<close>

lemma silent_not_failed: "silent ev \<Longrightarrow> \<not> failed ev"
  by (cases ev) simp_all

lemma quiet_clean: "\<not> list_ex failed xs \<Longrightarrow> quietAfterFailure xs"
  by (induction xs) simp_all

lemma quiet_silent: "list_all silent xs \<Longrightarrow> quietAfterFailure xs"
  by (induction xs) (simp_all add: silent_not_failed)

lemma quiet_append_clean:
  "\<not> list_ex failed xs \<Longrightarrow> quietAfterFailure (xs @ ys) = quietAfterFailure ys"
  by (induction xs) simp_all

lemma quiet_append_silent:
  "quietAfterFailure xs \<Longrightarrow> list_all silent ys \<Longrightarrow> quietAfterFailure (xs @ ys)"
  by (induction xs) (simp_all add: quiet_silent)

lemma failed_append: "list_ex failed (xs @ ys) = (list_ex failed xs \<or> list_ex failed ys)"
  by (induction xs) auto

lemma outline_v2_orderly:
  "(snd (snd (outline_v2 E c t x y offs img)) = None \<longrightarrow>
      \<not> list_ex failed (fst (outline_v2 E c t x y offs img))) \<and>
   (snd (snd (outline_v2 E c t x y offs img)) \<noteq> None \<longrightarrow>
      quietAfterFailure (fst (outline_v2 E c t x y offs img)) \<and>
      list_ex failed (fst (outline_v2 E c t x y offs img)))"
  by (induction offs arbitrary: img) (simp_all add: Let_def split: option.splits)

lemma encode_v2_orderly:
  "(err (encode_v2 E d first img) = None \<longrightarrow> \<not> list_ex failed (events (encode_v2 E d first img))) \<and>
   (err (encode_v2 E d first img) \<noteq> None \<longrightarrow>
      quietAfterFailure (events (encode_v2 E d first img)) \<and>
      list_ex failed (events (encode_v2 E d first img)))"
  by (simp add: encode_v2_def split: option.splits)

lemma draw_v2_orderly:
  "(err (draw_v2 E c t x y d img) = None \<longrightarrow> \<not> list_ex failed (events (draw_v2 E c t x y d img))) \<and>
   (err (draw_v2 E c t x y d img) \<noteq> None \<longrightarrow>
      quietAfterFailure (events (draw_v2 E c t x y d img)) \<and>
      list_ex failed (events (draw_v2 E c t x y d img)))"
  using outline_v2_orderly [of E "c\<lparr>c_src := Some outlineColor\<rparr>" t x y offsets img]
    encode_v2_orderly [of E d img]
  by (auto simp add: draw_v2_def Let_def failed_append quiet_append_clean
      split: option.splits prod.splits)

lemma render_v2_orderly:
  "(err (render_v2 E t d) = None \<longrightarrow> \<not> list_ex failed (events (render_v2 E t d))) \<and>
   (err (render_v2 E t d) \<noteq> None \<longrightarrow>
      quietAfterFailure (events (render_v2 E t d)) \<and> list_ex failed (events (render_v2 E t d)))"
  using draw_v2_orderly [of E _ t _ _ d]
  by (auto simp add: render_v2_def Let_def measureString_nil split: sum.splits)

lemma run_orderly:
  "(err (run E t out) = None \<longrightarrow> \<not> list_ex failed (events (run E t out))) \<and>
   (err (run E t out) \<noteq> None \<longrightarrow>
      quietAfterFailure (events (run E t out)) \<and> list_ex failed (events (run E t out)))"
  using render_v2_orderly [of E t]
  by (auto simp add: run_def Let_def failed_append quiet_append_silent split: option.splits)

lemma png_encode_v2_failed:
  "err (encode_v2 E d first img) \<noteq> None \<Longrightarrow> png (encode_v2 E d first img) = None"
  by (simp add: encode_v2_def split: option.splits)

lemma png_draw_v2_failed:
  "err (draw_v2 E c t x y d img) \<noteq> None \<Longrightarrow> png (draw_v2 E c t x y d img) = None"
  using png_encode_v2_failed [of E d img]
  by (auto simp add: draw_v2_def Let_def split: option.splits prod.splits)

lemma png_render_v2_failed:
  "err (render_v2 E t d) \<noteq> None \<Longrightarrow> png (render_v2 E t d) = None"
  using png_draw_v2_failed [of E _ t _ _ d]
  by (auto simp add: render_v2_def Let_def measureString_nil split: sum.splits)

lemma png_run_failed: "err (run E t out) \<noteq> None \<Longrightarrow> png (run E t out) = None"
  using png_render_v2_failed [of E t]
  by (cases "out = []") (auto simp add: run_def Let_def split: option.splits)

lemma main_v2_orderly:
  "quietAfterFailure (trace (main_v2 E Args)) \<and>
   (list_ex failed (trace (main_v2 E Args)) \<longrightarrow>
      status (main_v2 E Args) = 1 \<and> written (main_v2 E Args) = None \<and>
      (\<exists>e. last (trace (main_v2 E Args)) = Stderr (ErrorLine e)))"
proof (cases "length Args < 2 \<or> Args ! 1 = []")
  case True
  then show ?thesis by (simp add: main_v2_def usage_def)
next
  case False
  define named where "named = (if 2 < length Args then outputName E (Args ! 2) else ([], False))"
  define w where "w = (if snd named then [Stderr (WarnNotPng (Args ! 2))] else [])"
  define r where "r = run E (ToUpper E (Args ! 1)) (fst named)"
  have w: "\<not> list_ex failed w"
    by (simp add: w_def)
  show ?thesis
  proof (cases "err r")
    case None
    then have tr: "trace (main_v2 E Args) =
        w @ events r @ (if fst named \<noteq> [] then [Stdout (Successfully (fst named))] else [])"
      using False by (simp add: main_v2_def Let_def w_def r_def named_def)
    have "\<not> list_ex failed (events r)"
      using None run_orderly [of E "ToUpper E (Args ! 1)" "fst named"] by (simp add: r_def)
    then have "\<not> list_ex failed (trace (main_v2 E Args))"
      using w by (simp add: tr failed_append)
    then show ?thesis by (simp add: quiet_clean)
  next
    case (Some e)
    then have tr: "trace (main_v2 E Args) = w @ events r @ [Stderr (ErrorLine e)]"
      and st: "status (main_v2 E Args) = 1" and wr: "written (main_v2 E Args) = png r"
      using False by (simp_all add: main_v2_def Let_def w_def r_def named_def)
    have "quietAfterFailure (events r)"
      using Some run_orderly [of E "ToUpper E (Args ! 1)" "fst named"] by (simp add: r_def)
    then have "quietAfterFailure (trace (main_v2 E Args))"
      using w by (simp add: tr quiet_append_clean quiet_append_silent)
    moreover have "png r = None"
      using Some png_run_failed [of E "ToUpper E (Args ! 1)" "fst named"] by (simp add: r_def)
    ultimately show ?thesis
      using st wr by (simp add: tr)
  qed
qed

subsection \<open>The first revision goes on after a failed outline pass\<close>

lemma outline_v1_colour:
  "Draw col t' p r \<in> set (fst (outline_v1 E c t x y offs img)) \<Longrightarrow> col = c_src c"
  by (induction offs arbitrary: img) (auto simp add: Let_def split: option.splits)

lemma outline_v1_logged:
  "Draw col t' p (Some e) \<in> set (fst (outline_v1 E c t x y offs img)) \<Longrightarrow>
   \<exists>off. WarnOutlinePart off e \<in> set (stderr (fst (outline_v1 E c t x y offs img)))"
  by (induction offs arbitrary: img)
     (fastforce simp add: Let_def stderr_append split: option.splits)+

lemma no_draw_encode_v1: "Draw col t' p r \<notin> set (steps (encode_v1 E d first img))"
  by (simp add: encode_v1_def Let_def split: option.splits go_error.splits)

lemma draw_v1_white_failure:
  assumes "Draw (Some image_White) t' p (Some e) \<in> set (steps (draw_v1 E c t x y d img))"
  shows "fatal (draw_v1 E c t x y d img) \<and> encodes (steps (draw_v1 E c t x y d img)) = [] \<and>
         last (steps (draw_v1 E c t x y d img)) = Stderr (FatalMainText e)"
  using assms outline_v1_colour [of "Some image_White" t' p "Some e" E
      "c\<lparr>c_src := Some outlineColor\<rparr>" t x y offsets img]
    no_draw_encode_v1 [of "Some image_White" t' p "Some e" E d img]
  by (auto simp add: draw_v1_def Let_def outlineColor_def fillColor_def encodes_append
      encodes_outline_v1 split: option.splits)

lemma draw_v1_black_failure:
  assumes "Draw (Some image_Black) t' p (Some e) \<in> set (steps (draw_v1 E c t x y d img))"
  shows "\<exists>off. WarnOutlinePart off e \<in> set (stderr (steps (draw_v1 E c t x y d img)))"
  using assms outline_v1_logged [of "Some image_Black" t' p e E
      "c\<lparr>c_src := Some outlineColor\<rparr>" t x y offsets img]
    no_draw_encode_v1 [of "Some image_Black" t' p "Some e" E d img]
  by (auto simp add: draw_v1_def Let_def outlineColor_def fillColor_def stderr_append
      split: option.splits)

lemma render_v1_white_failure:
  assumes "Draw (Some image_White) t' p (Some e) \<in> set (steps (render_v1 E t d))"
  shows "fatal (render_v1 E t d) \<and> encodes (steps (render_v1 E t d)) = [] \<and>
         last (steps (render_v1 E t d)) = Stderr (FatalMainText e)"
proof (cases "image_Decode E")
  case (Inl a)
  with assms show ?thesis by (simp add: render_v1_def)
next
  case (Inr dd)
  show ?thesis
  proof (cases "ParseFont E")
    case (Inl a)
    with Inr assms show ?thesis by (simp add: render_v1_def Let_def)
  next
    case f: (Inr f)
    let ?r = "draw_v1 E (setupContext f (prepareCanvas (baseImg_of dd))) t
                (startX_v1 (Dx (Bounds (baseImg_of dd)))
                   (fst (measureString E f fontSize dpi HintingFull t)))
                startY_v1 d (prepareCanvas (baseImg_of dd))"
    obtain pre where pre: "steps (render_v1 E t d) = pre @ steps ?r"
      "fatal (render_v1 E t d) = fatal ?r" "encodes pre = []"
      "Draw (Some image_White) t' p (Some e) \<notin> set pre"
      using Inr f by (simp add: render_v1_def Let_def measureString_nil)
    with assms have mem: "Draw (Some image_White) t' p (Some e) \<in> set (steps ?r)"
      by simp
    then have "steps ?r \<noteq> []" by auto
    with draw_v1_white_failure [OF mem] pre show ?thesis
      by (simp add: encodes_append)
  qed
qed

lemma render_v1_black_failure:
  assumes "Draw (Some image_Black) t' p (Some e) \<in> set (steps (render_v1 E t d))"
  shows "\<exists>off. WarnOutlinePart off e \<in> set (stderr (steps (render_v1 E t d)))"
proof (cases "image_Decode E")
  case (Inl a)
  with assms show ?thesis by (simp add: render_v1_def)
next
  case (Inr dd)
  show ?thesis
  proof (cases "ParseFont E")
    case (Inl a)
    with Inr assms show ?thesis by (simp add: render_v1_def Let_def)
  next
    case f: (Inr f)
    let ?r = "draw_v1 E (setupContext f (prepareCanvas (baseImg_of dd))) t
                (startX_v1 (Dx (Bounds (baseImg_of dd)))
                   (fst (measureString E f fontSize dpi HintingFull t)))
                startY_v1 d (prepareCanvas (baseImg_of dd))"
    obtain pre where pre: "steps (render_v1 E t d) = pre @ steps ?r"
      "Draw (Some image_Black) t' p (Some e) \<notin> set pre"
      using Inr f by (simp add: render_v1_def Let_def measureString_nil)
    with assms have "Draw (Some image_Black) t' p (Some e) \<in> set (steps ?r)"
      by simp
    from draw_v1_black_failure [OF this] pre show ?thesis
      by (auto simp add: stderr_append)
  qed
qed

lemma render_v1_nine:
  assumes "canvas (render_v1 E t d) \<noteq> None"
  shows "length (draws (steps (render_v1 E t d))) = 9"
proof (cases "image_Decode E")
  case (Inl a)
  with assms show ?thesis by (simp add: render_v1_def)
next
  case (Inr dd)
  show ?thesis
  proof (cases "ParseFont E")
    case (Inl a)
    with Inr assms show ?thesis by (simp add: render_v1_def Let_def)
  next
    case (Inr f)
    with \<open>image_Decode E = Inr dd\<close> show ?thesis
      by (simp add: draws_render_v1 offsets_distinct)
  qed
qed

lemma main_v1_nine:
  "first_canvas (main_v1 E Args) \<noteq> None \<Longrightarrow> length (draws (trace (main_v1 E Args))) = 9"
  using render_v1_nine [of E "ToUpper E (Args ! 1)"]
  by (auto simp add: main_v1_def usage_def Let_def draws_append split: option.splits if_splits)

lemma main_v1_black_failure:
  assumes "Draw (Some image_Black) t p (Some e) \<in> set (trace (main_v1 E Args))"
  shows "\<exists>off. WarnOutlinePart off e \<in> set (stderr (trace (main_v1 E Args)))"
  using assms render_v1_black_failure [of t p e E "ToUpper E (Args ! 1)"]
  by (auto simp add: main_v1_def usage_def Let_def stderr_append split: option.splits if_splits)

lemma main_v1_white_failure:
  assumes "Draw (Some image_White) t p (Some e) \<in> set (trace (main_v1 E Args))"
  shows "status (main_v1 E Args) = 1 \<and> encodes (trace (main_v1 E Args)) = [] \<and>
         last (trace (main_v1 E Args)) = Stderr (FatalMainText e)"
proof (cases "length Args < 2 \<or> Args ! 1 = []")
  case True
  with assms show ?thesis by (auto simp add: main_v1_def usage_def split: if_splits)
next
  case False
  show ?thesis
  proof (cases "2 < length Args")
    case True
    let ?name = "fst (outputName E (Args ! 2))"
    let ?r = "render_v1 E (ToUpper E (Args ! 1)) (File ?name)"
    show ?thesis
    proof (cases "os_Create E ?name")
      case (Some a)
      with True False assms show ?thesis by (auto simp add: main_v1_def Let_def)
    next
      case None
      with True False assms have mem: "Draw (Some image_White) t p (Some e) \<in> set (steps ?r)"
        by (auto simp add: main_v1_def Let_def split: if_splits)
      then have ne: "steps ?r \<noteq> []" by auto
      from render_v1_white_failure [OF mem] ne None True False show ?thesis
        by (simp add: main_v1_def Let_def encodes_append)
    qed
  next
    case short: False
    let ?r = "render_v1 E (ToUpper E (Args ! 1)) os_Stdout"
    from short False assms have mem: "Draw (Some image_White) t p (Some e) \<in> set (steps ?r)"
      by (auto simp add: main_v1_def Let_def)
    then have ne: "steps ?r \<noteq> []" by auto
    from render_v1_white_failure [OF mem] ne short False show ?thesis
      by (simp add: main_v1_def Let_def)
  qed
qed

subsection \<open>The second revision names the failed outline pass\<close>

lemma outline_v2_failure:
  "Draw col t' p (Some e) \<in> set (fst (outline_v2 E c t x y offs img)) \<Longrightarrow>
   \<exists>off. snd (snd (outline_v2 E c t x y offs img)) = Some (off, e)"
  by (induction offs arbitrary: img) (auto simp add: Let_def split: option.splits)

lemma no_draw_encode_v2: "Draw col t' p r \<notin> set (events (encode_v2 E d first img))"
  by (simp add: encode_v2_def split: option.splits)

lemma draw_v2_black_failure:
  assumes "Draw (Some image_Black) t' p (Some e) \<in> set (events (draw_v2 E c t x y d img))"
  shows "\<exists>off. err (draw_v2 E c t x y d img) = Some (DrawingOutlinePart off e)"
  using assms outline_v2_failure [of "Some image_Black" t' p e E
      "c\<lparr>c_src := Some outlineColor\<rparr>" t x y offsets img]
    no_draw_encode_v2 [of "Some image_Black" t' p "Some e" E d img]
  by (auto simp add: draw_v2_def Let_def outlineColor_def fillColor_def
      split: option.splits prod.splits)

lemma render_v2_black_failure:
  assumes "Draw (Some image_Black) t' p (Some e) \<in> set (events (render_v2 E t d))"
  shows "\<exists>off. err (render_v2 E t d) = Some (DrawingOutlinePart off e)"
  using assms draw_v2_black_failure [of t' p e E _ t _ _ d]
  by (auto simp add: render_v2_def Let_def measureString_nil split: sum.splits)

lemma run_black_failure:
  assumes "Draw (Some image_Black) t' p (Some e) \<in> set (events (run E t out))"
  shows "\<exists>off. err (run E t out) = Some (DrawingOutlinePart off e)"
  using assms render_v2_black_failure [of t' p e E t]
  by (cases "out = []") (auto simp add: run_def Let_def split: option.splits)

lemma main_v2_black_failure:
  assumes "Draw (Some image_Black) t p (Some e) \<in> set (trace (main_v2 E Args))"
  shows "\<exists>off. last (trace (main_v2 E Args)) = Stderr (ErrorLine (DrawingOutlinePart off e))"
proof (cases "length Args < 2 \<or> Args ! 1 = []")
  case True
  with assms show ?thesis by (auto simp add: main_v2_def usage_def split: if_splits)
next
  case False
  define named where "named = (if 2 < length Args then outputName E (Args ! 2) else ([], False))"
  define r where "r = run E (ToUpper E (Args ! 1)) (fst named)"
  have "Draw (Some image_Black) t p (Some e) \<in> set (events r)"
    using assms False
    by (auto simp add: main_v2_def Let_def r_def named_def split: option.splits if_splits)
  then obtain off where "err r = Some (DrawingOutlinePart off e)"
    using run_black_failure [of t p e E "ToUpper E (Args ! 1)" "fst named"]
    unfolding r_def by blast
  then show ?thesis
    using False by (simp add: main_v2_def Let_def r_def named_def)
qed

text \<open>
  Claim C2, as the code has it. In the second revision every error is terminal: once a
  library call has failed nothing follows but the printed error and the deferred close of
  the file, the exit status is 1, no PNG is written and the last line on standard error
  is the error; for a failed outline pass that line names the pass, and no later pass and
  no fill pass is drawn. In the first revision a failed outline pass is logged on standard
  error and the run goes on: whenever the canvas was prepared all nine calls of
  \<^verbatim>\<open>DrawString\<close> are made. Only a failed fill pass ends that run, with status 1 and nothing
  encoded.
\<close>

theorem errors_end_the_run:
  "quietAfterFailure (trace (main_v2 E Args)) \<and>
   (list_ex failed (trace (main_v2 E Args)) \<longrightarrow>
      status (main_v2 E Args) = 1 \<and> written (main_v2 E Args) = None \<and>
      (\<exists>e. last (trace (main_v2 E Args)) = Stderr (ErrorLine e))) \<and>
   (Draw (Some image_Black) t p (Some e) \<in> set (trace (main_v2 E Args)) \<longrightarrow>
      (\<exists>off. last (trace (main_v2 E Args)) = Stderr (ErrorLine (DrawingOutlinePart off e)))) \<and>
   (first_canvas (main_v1 E Args) \<noteq> None \<longrightarrow> length (draws (trace (main_v1 E Args))) = 9) \<and>
   (Draw (Some image_Black) t p (Some e) \<in> set (trace (main_v1 E Args)) \<longrightarrow>
      (\<exists>off. WarnOutlinePart off e \<in> set (stderr (trace (main_v1 E Args))))) \<and>
   (Draw (Some image_White) t p (Some e) \<in> set (trace (main_v1 E Args)) \<longrightarrow>
      status (main_v1 E Args) = 1 \<and> encodes (trace (main_v1 E Args)) = [] \<and>
      last (trace (main_v1 E Args)) = Stderr (FatalMainText e))"
  using main_v2_orderly [of E Args] main_v2_black_failure [of t p e E Args]
    main_v1_nine [of E Args] main_v1_black_failure [of t p e E Args]
    main_v1_white_failure [of t p e E Args]
  by blast

lemma failing_v1_trace:
  "trace (main_v1 failing_draw_env [''memegen'', ''hi'']) =
     [Stderr LogStdout, Decode None, Stderr (LogTemplate ''png''), Parse None,
      Stderr LogFontLoaded, Measure ''HI'', Stderr LogDrawingOutline,
      Draw (Some image_Black) ''HI'' (Pt 338 162) (Some (OtherError ''glyph'')),
      Stderr (WarnOutlinePart (- 2, - 2) (OtherError ''glyph'')),
      Draw (Some image_Black) ''HI'' (Pt 340 162) (Some (OtherError ''glyph'')),
      Stderr (WarnOutlinePart (0, - 2) (OtherError ''glyph'')),
      Draw (Some image_Black) ''HI'' (Pt 342 162) (Some (OtherError ''glyph'')),
      Stderr (WarnOutlinePart (2, - 2) (OtherError ''glyph'')),
      Draw (Some image_Black) ''HI'' (Pt 338 164) (Some (OtherError ''glyph'')),
      Stderr (WarnOutlinePart (- 2, 0) (OtherError ''glyph'')),
      Draw (Some image_Black) ''HI'' (Pt 342 164) (Some (OtherError ''glyph'')),
      Stderr (WarnOutlinePart (2, 0) (OtherError ''glyph'')),
      Draw (Some image_Black) ''HI'' (Pt 338 166) (Some (OtherError ''glyph'')),
      Stderr (WarnOutlinePart (- 2, 2) (OtherError ''glyph'')),
      Draw (Some image_Black) ''HI'' (Pt 340 166) (Some (OtherError ''glyph'')),
      Stderr (WarnOutlinePart (0, 2) (OtherError ''glyph'')),
      Draw (Some image_Black) ''HI'' (Pt 342 166) (Some (OtherError ''glyph'')),
      Stderr (WarnOutlinePart (2, 2) (OtherError ''glyph'')),
      Stderr LogDrawingFill,
      Draw (Some image_White) ''HI'' (Pt 340 164) (Some (OtherError ''glyph'')),
      Stderr (FatalMainText (OtherError ''glyph''))]"
  by (simp add: v1_defs failing_draw_env_def sample_env_def upper_defs sample_template_def
      baseImg_of_def image_Rect_def Dx_def startX_v1_def startY_v1_value signed_divide_int_def
      outlineThickness_def outlineColor_def fillColor_def)

lemma failing_v2_trace:
  "trace (main_v2 failing_draw_env [''memegen'', ''hi'']) =
     [Decode None, Parse None, Measure ''HI'',
      Draw (Some image_Black) ''HI'' (Pt 338 162) (Some (OtherError ''glyph'')),
      Stderr (ErrorLine (DrawingOutlinePart (- 2, - 2) (OtherError ''glyph'')))]"
  by (simp add: main_v2_def v2_defs failing_draw_env_def sample_env_def upper_defs
      sample_template_def baseImg_of_def image_Rect_def Dx_def startX_v2_def
      startY_v2_setupContext signed_divide_int_def outlineThickness_def outlineColor_def)

text \<open>
  The claim as stated fails for the first revision: with a rasteriser that fails on
  every call all nine passes are still attempted.
\<close>

theorem outline_failure_counterexample:
  "drawErrors (trace (main_v1 failing_draw_env [''memegen'', ''hi''])) =
     replicate 9 (Some (OtherError ''glyph'')) \<and>
   \<not> quietAfterFailure (trace (main_v1 failing_draw_env [''memegen'', ''hi'']))"
  by (simp add: failing_v1_trace eval_nat_numeral)

theorem errors_end_the_run_witness:
  "list_ex failed (trace (main_v2 failing_draw_env [''memegen'', ''hi''])) \<and>
   status (main_v2 failing_draw_env [''memegen'', ''hi'']) = 1 \<and>
   last (trace (main_v2 failing_draw_env [''memegen'', ''hi''])) =
     Stderr (ErrorLine (DrawingOutlinePart (- 2, - 2) (OtherError ''glyph''))) \<and>
   length (draws (trace (main_v1 failing_draw_env [''memegen'', ''hi'']))) = 9 \<and>
   status (main_v1 failing_draw_env [''memegen'', ''hi'']) = 1"
proof -
  have a: "list_ex failed (trace (main_v2 failing_draw_env [''memegen'', ''hi'']))"
    by (simp add: failing_v2_trace)
  have b: "Draw (Some image_Black) ''HI'' (Pt 338 162) (Some (OtherError ''glyph''))
             \<in> set (trace (main_v2 failing_draw_env [''memegen'', ''hi'']))"
    by (simp add: failing_v2_trace)
  have c: "Draw (Some image_White) ''HI'' (Pt 340 164) (Some (OtherError ''glyph''))
             \<in> set (trace (main_v1 failing_draw_env [''memegen'', ''hi'']))"
    by (simp add: failing_v1_trace)
  have d: "first_canvas (main_v1 failing_draw_env [''memegen'', ''hi'']) \<noteq> None"
    by (simp add: v1_defs failing_draw_env_def sample_env_def upper_defs)
  from a b
    errors_end_the_run [of failing_draw_env "[''memegen'', ''hi'']" "''HI''" "Pt 338 162"
      "OtherError ''glyph''"]
  have v2: "status (main_v2 failing_draw_env [''memegen'', ''hi'']) = 1"
    "\<exists>off. last (trace (main_v2 failing_draw_env [''memegen'', ''hi''])) =
       Stderr (ErrorLine (DrawingOutlinePart off (OtherError ''glyph'')))"
    by blast+
  from c d
    errors_end_the_run [of failing_draw_env "[''memegen'', ''hi'']" "''HI''" "Pt 340 164"
      "OtherError ''glyph''"]
  have v1: "length (draws (trace (main_v1 failing_draw_env [''memegen'', ''hi'']))) = 9"
    "status (main_v1 failing_draw_env [''memegen'', ''hi'']) = 1"
    by blast+
  from a v2 v1 show ?thesis by (simp add: failing_v2_trace)
qed

subsection \<open>A write error on standard output\<close>

lemma no_encode_outline_v2: "Encode d r \<notin> set (fst (outline_v2 E c t x y offs img))"
  by (induction offs arbitrary: img) (simp_all add: Let_def split: option.splits)

lemma draw_v2_stdout_failure:
  assumes "Encode os_Stdout (Some (PathError ''write'' path)) \<in> set (events (draw_v2 E c t x y d img))"
  shows "err (draw_v2 E c t x y d img) = Some (WritingPNGToStdout (PathError ''write'' path))"
  using assms no_encode_outline_v2 [of os_Stdout "Some (PathError ''write'' path)" E
      "c\<lparr>c_src := Some outlineColor\<rparr>" t x y offsets img]
  by (auto simp add: draw_v2_def encode_v2_def Let_def split: option.splits prod.splits)

lemma render_v2_stdout_failure:
  assumes "Encode os_Stdout (Some (PathError ''write'' path)) \<in> set (events (render_v2 E t d))"
  shows "err (render_v2 E t d) = Some (WritingPNGToStdout (PathError ''write'' path))"
  using assms draw_v2_stdout_failure [of path E _ t _ _ d]
  by (auto simp add: render_v2_def Let_def measureString_nil split: sum.splits)

lemma run_stdout_failure:
  assumes "Encode os_Stdout (Some (PathError ''write'' path)) \<in> set (events (run E t out))"
  shows "err (run E t out) = Some (WritingPNGToStdout (PathError ''write'' path))"
  using assms render_v2_stdout_failure [of path E t]
  by (cases "out = []") (auto simp add: run_def Let_def split: option.splits)

lemma main_v2_stdout_failure:
  assumes "Encode os_Stdout (Some (PathError ''write'' path)) \<in> set (trace (main_v2 E Args))"
  shows "status (main_v2 E Args) = 1 \<and> written (main_v2 E Args) = None \<and>
         last (trace (main_v2 E Args)) =
           Stderr (ErrorLine (WritingPNGToStdout (PathError ''write'' path)))"
proof (cases "length Args < 2 \<or> Args ! 1 = []")
  case True
  with assms show ?thesis by (auto simp add: main_v2_def usage_def split: if_splits)
next
  case False
  define named where "named = (if 2 < length Args then outputName E (Args ! 2) else ([], False))"
  define r where "r = run E (ToUpper E (Args ! 1)) (fst named)"
  have "Encode os_Stdout (Some (PathError ''write'' path)) \<in> set (events r)"
    using assms False
    by (auto simp add: main_v2_def Let_def r_def named_def split: option.splits if_splits)
  then have e: "err r = Some (WritingPNGToStdout (PathError ''write'' path))"
    using run_stdout_failure [of path E "ToUpper E (Args ! 1)" "fst named"]
    unfolding r_def by blast
  then have "png r = None"
    using png_run_failed [of E "ToUpper E (Args ! 1)" "fst named"] by (simp add: r_def)
  with e show ?thesis
    using False by (simp add: main_v2_def Let_def r_def named_def)
qed

text \<open>
  Claim C3, as the code has it. In Go a write to a broken pipe on file descriptor 1 does
  not return: package \<^verbatim>\<open>os\<close> raises SIGPIPE inside the write. The write errors that
  \<^verbatim>\<open>png.Encode\<close> does return from standard output are \<^verbatim>\<open>*os.PathError\<close> values with \<open>Op\<close>
  \<open>write\<close>, and the second revision's broken-pipe check (lines 356-363) takes every one
  of them. It does not treat them as non-fatal: \<^verbatim>\<open>run\<close> returns the error "writing PNG to
  stdout", \<^verbatim>\<open>main\<close> prints it on standard error as its last line, no PNG is written and the
  exit status is 1. Nothing is stated here of the first revision.
\<close>

theorem write_error_on_stdout:
  "Encode os_Stdout (Some (PathError ''write'' path)) \<in> set (trace (main_v2 E Args)) \<longrightarrow>
     status (main_v2 E Args) = 1 \<and> written (main_v2 E Args) = None \<and>
     last (trace (main_v2 E Args)) =
       Stderr (ErrorLine (WritingPNGToStdout (PathError ''write'' path)))"
  using main_v2_stdout_failure [of path E Args] by blast

lemma write_error_v2_trace:
  "trace (main_v2 stdout_write_error_env [''memegen'', ''hi'']) =
     [Decode None, Parse None, Measure ''HI'',
      Draw (Some image_Black) ''HI'' (Pt 338 162) None,
      Draw (Some image_Black) ''HI'' (Pt 340 162) None,
      Draw (Some image_Black) ''HI'' (Pt 342 162) None,
      Draw (Some image_Black) ''HI'' (Pt 338 164) None,
      Draw (Some image_Black) ''HI'' (Pt 342 164) None,
      Draw (Some image_Black) ''HI'' (Pt 338 166) None,
      Draw (Some image_Black) ''HI'' (Pt 340 166) None,
      Draw (Some image_Black) ''HI'' (Pt 342 166) None,
      Draw (Some image_White) ''HI'' (Pt 340 164) None,
      Encode os_Stdout (Some (PathError ''write'' ''/dev/stdout'')),
      Stderr (ErrorLine (WritingPNGToStdout (PathError ''write'' ''/dev/stdout'')))]"
  by (simp add: main_v2_def v2_defs stdout_write_error_env_def sample_env_def upper_defs
      sample_template_def baseImg_of_def image_Rect_def Dx_def startX_v2_def
      startY_v2_setupContext signed_divide_int_def outlineThickness_def outlineColor_def
      fillColor_def)

lemma write_error_v2_status: "status (main_v2 stdout_write_error_env [''memegen'', ''hi'']) = 1"
  by (simp add: main_v2_def v2_defs stdout_write_error_env_def sample_env_def upper_defs)

text \<open>
  The claim as stated fails for the second revision: with standard output on a full
  disk the write fails, the branch of the broken-pipe check is taken, the error is
  printed and the exit status is 1, not 0.
\<close>

theorem write_error_on_stdout_counterexample:
  "Encode os_Stdout (Some (PathError ''write'' ''/dev/stdout''))
     \<in> set (trace (main_v2 stdout_write_error_env [''memegen'', ''hi''])) \<and>
   Stderr (ErrorLine (WritingPNGToStdout (PathError ''write'' ''/dev/stdout'')))
     \<in> set (trace (main_v2 stdout_write_error_env [''memegen'', ''hi''])) \<and>
   status (main_v2 stdout_write_error_env [''memegen'', ''hi'']) \<noteq> 0"
  by (simp add: write_error_v2_trace write_error_v2_status)

theorem write_error_on_stdout_witness:
  "Encode os_Stdout (Some (PathError ''write'' ''/dev/stdout''))
     \<in> set (trace (main_v2 stdout_write_error_env [''memegen'', ''hi''])) \<and>
   status (main_v2 stdout_write_error_env [''memegen'', ''hi'']) = 1 \<and>
   written (main_v2 stdout_write_error_env [''memegen'', ''hi'']) = None \<and>
   last (trace (main_v2 stdout_write_error_env [''memegen'', ''hi''])) =
     Stderr (ErrorLine (WritingPNGToStdout (PathError ''write'' ''/dev/stdout'')))"
proof -
  have a: "Encode os_Stdout (Some (PathError ''write'' ''/dev/stdout''))
     \<in> set (trace (main_v2 stdout_write_error_env [''memegen'', ''hi'']))"
    by (simp add: write_error_v2_trace)
  from a write_error_on_stdout [of "''/dev/stdout''" stdout_write_error_env "[''memegen'', ''hi'']"]
  show ?thesis by blast
qed

subsection \<open>Where the PNG goes\<close>

lemma encodes_encode_v2: "encodes (events (encode_v2 E d first img)) = [d]"
  by (simp add: encode_v2_def split: option.splits)

lemma encodes_draw_v2_ok:
  "err (draw_v2 E c t x y d img) = None \<Longrightarrow> encodes (events (draw_v2 E c t x y d img)) = [d]"
  by (simp add: draw_v2_def Let_def encodes_append encodes_outline_v2 encodes_encode_v2
      split: option.splits prod.splits)

lemma encodes_render_v2_ok:
  "err (render_v2 E t d) = None \<Longrightarrow> encodes (events (render_v2 E t d)) = [d]"
  by (simp add: render_v2_def Let_def measureString_nil encodes_draw_v2_ok split: sum.splits)

lemma render_v2_destination:
  assumes "err (render_v2 E t d) = None"
  shows "\<exists>img. png (render_v2 E t d) = Some (d, img)"
  using render_v2_png [OF assms] by blast

lemma run_destination:
  assumes "err (run E t out) = None"
  shows "encodes (events (run E t out)) = [if out \<noteq> [] then File out else os_Stdout] \<and>
         (\<exists>img. png (run E t out) = Some (if out \<noteq> [] then File out else os_Stdout, img))"
proof (cases "out = []")
  case True
  with assms have "err (render_v2 E t os_Stdout) = None" by (simp add: run_def)
  with True show ?thesis
    using render_v2_destination [of E t os_Stdout]
    by (simp add: run_def encodes_render_v2_ok)
next
  case False
  with assms have ok: "os_Create E out = None" "err (render_v2 E t (File out)) = None"
    by (auto simp add: run_def Let_def split: option.splits)
  with False show ?thesis
    using render_v2_destination [of E t "File out"]
    by (simp add: run_def Let_def encodes_append encodes_render_v2_ok)
qed

lemma main_v2_success:
  assumes "1 < length Args" and "Args ! 1 \<noteq> []" and "status (main_v2 E Args) = 0"
  shows "encodes (trace (main_v2 E Args)) =
           [if 2 < length Args then File (fst (outputName E (Args ! 2))) else os_Stdout] \<and>
         (\<exists>img. written (main_v2 E Args) =
            Some (if 2 < length Args then File (fst (outputName E (Args ! 2))) else os_Stdout,
                  img))"
proof -
  define named where "named = (if 2 < length Args then outputName E (Args ! 2) else ([], False))"
  define r where "r = run E (ToUpper E (Args ! 1)) (fst named)"
  have ok: "err r = None"
    using assms by (auto simp add: main_v2_def Let_def r_def named_def split: option.splits)
  then have tr: "encodes (trace (main_v2 E Args)) = encodes (events r)"
    and wr: "written (main_v2 E Args) = png r"
    using assms by (simp_all add: main_v2_def Let_def r_def named_def encodes_append)
  have out: "(fst named \<noteq> []) = (2 < length Args)"
    using outputName_nonempty [of E "Args ! 2"] by (simp add: named_def)
  have "fst named = fst (outputName E (Args ! 2))" if "2 < length Args"
    using that by (simp add: named_def)
  with run_destination [of E "ToUpper E (Args ! 1)" "fst named"] ok out tr wr
  show ?thesis by (auto simp add: r_def)
qed

lemma encodes_encode_v1: "encodes (steps (encode_v1 E d first img)) = [d]"
  by (simp add: encode_v1_def Let_def split: option.splits go_error.splits)

lemma encodes_draw_v1_ok:
  "\<not> fatal (draw_v1 E c t x y d img) \<Longrightarrow> encodes (steps (draw_v1 E c t x y d img)) = [d]"
  by (simp add: draw_v1_def Let_def encodes_append encodes_outline_v1 encodes_encode_v1
      split: option.splits)

lemma encodes_render_v1_ok:
  "\<not> fatal (render_v1 E t d) \<Longrightarrow> encodes (steps (render_v1 E t d)) = [d]"
  by (simp add: render_v1_def Let_def measureString_nil encodes_draw_v1_ok split: sum.splits)

lemma render_v1_destination:
  assumes "\<not> fatal (render_v1 E t d)"
    and "WarnBrokenPipe \<notin> set (stderr (steps (render_v1 E t d)))"
  shows "\<exists>img. pngOut (render_v1 E t d) = Some (d, img)"
  using render_v1_png_ok [OF assms] pngOut_render_v1 [of E t d] by fastforce

lemma main_v1_success:
  assumes "1 < length Args" and "Args ! 1 \<noteq> []" and "status (main_v1 E Args) = 0"
  shows "encodes (trace (main_v1 E Args)) =
           [if 2 < length Args then File (fst (outputName E (Args ! 2))) else os_Stdout] \<and>
         (WarnBrokenPipe \<notin> set (stderr (trace (main_v1 E Args))) \<longrightarrow>
            (\<exists>img. written (main_v1 E Args) =
               Some (if 2 < length Args then File (fst (outputName E (Args ! 2))) else os_Stdout,
                     img)))"
proof (cases "2 < length Args")
  case True
  let ?name = "fst (outputName E (Args ! 2))"
  let ?r = "render_v1 E (ToUpper E (Args ! 1)) (File ?name)"
  from assms True have ok: "os_Create E ?name = None" "\<not> fatal ?r"
    by (auto simp add: main_v1_def Let_def split: option.splits if_splits)
  with assms True show ?thesis
    using render_v1_destination [of E "ToUpper E (Args ! 1)" "File ?name"]
    by (simp add: main_v1_def Let_def encodes_append stderr_append encodes_render_v1_ok)
next
  case False
  let ?r = "render_v1 E (ToUpper E (Args ! 1)) os_Stdout"
  from assms False have ok: "\<not> fatal ?r"
    by (auto simp add: main_v1_def Let_def split: if_splits)
  with assms False show ?thesis
    using render_v1_destination [of E "ToUpper E (Args ! 1)" os_Stdout]
    by (simp add: main_v1_def Let_def encodes_append stderr_append encodes_render_v1_ok)
qed

text \<open>
  Claim C7. When an output name is given and its lower-cased form does not end in
  \<open>.png\<close>, both revisions print a warning on standard error and then create the file
  under the name with \<open>.png\<close> appended; a name whose lower-cased form ends in \<open>.png\<close>
  (so \<open>.png\<close> in any letter case, as in \<open>out.PNG\<close>) is used unchanged. That file is the
  only one created and the only destination of the encoder, and a run that exits with
  status 0 has called the encoder on it, once, and (the first revision's broken-pipe
  branch apart) written the PNG to it. When the output argument is omitted no file is
  created, the encoder writes nowhere but to standard output, and a run that exits with
  status 0 has called the encoder on standard output, once, and written the PNG there.
\<close>

theorem output_destination:
  assumes "1 < length Args" and "Args ! 1 \<noteq> []"
  shows "(2 < length Args \<longrightarrow>
           (let name = (if HasSuffix (ToLower E (Args ! 2)) ''.png'' then Args ! 2
                        else Args ! 2 @ ''.png'');
                warning = (if HasSuffix (ToLower E (Args ! 2)) ''.png'' then []
                           else [Stderr (WarnNotPng (Args ! 2))])
            in (\<exists>r rest. trace (main_v1 E Args) = warning @ Create name r # rest) \<and>
               (\<exists>r rest. trace (main_v2 E Args) = warning @ Create name r # rest) \<and>
               creates (trace (main_v1 E Args)) = [name] \<and>
               creates (trace (main_v2 E Args)) = [name] \<and>
               set (encodes (trace (main_v1 E Args))) \<subseteq> {File name} \<and>
               set (encodes (trace (main_v2 E Args))) \<subseteq> {File name} \<and>
               (\<forall>d img. written (main_v1 E Args) = Some (d, img) \<longrightarrow> d = File name) \<and>
               (\<forall>d img. written (main_v2 E Args) = Some (d, img) \<longrightarrow> d = File name) \<and>
               (status (main_v1 E Args) = 0 \<longrightarrow>
                  encodes (trace (main_v1 E Args)) = [File name]) \<and>
               (status (main_v1 E Args) = 0 \<and>
                WarnBrokenPipe \<notin> set (stderr (trace (main_v1 E Args))) \<longrightarrow>
                  (\<exists>img. written (main_v1 E Args) = Some (File name, img))) \<and>
               (status (main_v2 E Args) = 0 \<longrightarrow>
                  encodes (trace (main_v2 E Args)) = [File name] \<and>
                  (\<exists>img. written (main_v2 E Args) = Some (File name, img))))) \<and>
         (length Args = 2 \<longrightarrow>
            creates (trace (main_v1 E Args)) = [] \<and>
            creates (trace (main_v2 E Args)) = [] \<and>
            set (encodes (trace (main_v1 E Args))) \<subseteq> {os_Stdout} \<and>
            set (encodes (trace (main_v2 E Args))) \<subseteq> {os_Stdout} \<and>
            (\<forall>d img. written (main_v1 E Args) = Some (d, img) \<longrightarrow> d = os_Stdout) \<and>
            (\<forall>d img. written (main_v2 E Args) = Some (d, img) \<longrightarrow> d = os_Stdout) \<and>
            (status (main_v1 E Args) = 0 \<longrightarrow>
               encodes (trace (main_v1 E Args)) = [os_Stdout]) \<and>
            (status (main_v1 E Args) = 0 \<and>
             WarnBrokenPipe \<notin> set (stderr (trace (main_v1 E Args))) \<longrightarrow>
               (\<exists>img. written (main_v1 E Args) = Some (os_Stdout, img))) \<and>
            (status (main_v2 E Args) = 0 \<longrightarrow>
               encodes (trace (main_v2 E Args)) = [os_Stdout] \<and>
               (\<exists>img. written (main_v2 E Args) = Some (os_Stdout, img)))) \<and>
         (isASCII stem \<and> p \<in> {CHR ''p'', CHR ''P''} \<and> n \<in> {CHR ''n'', CHR ''N''} \<and>
          g \<in> {CHR ''g'', CHR ''G''} \<longrightarrow>
            outputName E (stem @ [CHR ''.'', p, n, g]) = (stem @ [CHR ''.'', p, n, g], False))"
proof (intro conjI impI)
  assume named: "2 < length Args"
  show "let name = (if HasSuffix (ToLower E (Args ! 2)) ''.png'' then Args ! 2
                    else Args ! 2 @ ''.png'');
            warning = (if HasSuffix (ToLower E (Args ! 2)) ''.png'' then []
                       else [Stderr (WarnNotPng (Args ! 2))])
        in (\<exists>r rest. trace (main_v1 E Args) = warning @ Create name r # rest) \<and>
           (\<exists>r rest. trace (main_v2 E Args) = warning @ Create name r # rest) \<and>
           creates (trace (main_v1 E Args)) = [name] \<and>
           creates (trace (main_v2 E Args)) = [name] \<and>
           set (encodes (trace (main_v1 E Args))) \<subseteq> {File name} \<and>
           set (encodes (trace (main_v2 E Args))) \<subseteq> {File name} \<and>
           (\<forall>d img. written (main_v1 E Args) = Some (d, img) \<longrightarrow> d = File name) \<and>
           (\<forall>d img. written (main_v2 E Args) = Some (d, img) \<longrightarrow> d = File name) \<and>
           (status (main_v1 E Args) = 0 \<longrightarrow>
              encodes (trace (main_v1 E Args)) = [File name]) \<and>
           (status (main_v1 E Args) = 0 \<and>
            WarnBrokenPipe \<notin> set (stderr (trace (main_v1 E Args))) \<longrightarrow>
              (\<exists>img. written (main_v1 E Args) = Some (File name, img))) \<and>
           (status (main_v2 E Args) = 0 \<longrightarrow>
              encodes (trace (main_v2 E Args)) = [File name] \<and>
              (\<exists>img. written (main_v2 E Args) = Some (File name, img)))"
    using main_v1_named [OF named assms(2), of E] main_v2_named [OF named assms(2), of E]
      main_v1_success [OF assms, of E] main_v2_success [OF assms, of E] named
    by (simp add: outputName_eq Let_def split: if_splits)
next
  assume short: "length Args = 2"
  then show "creates (trace (main_v1 E Args)) = []" "creates (trace (main_v2 E Args)) = []"
    "set (encodes (trace (main_v1 E Args))) \<subseteq> {os_Stdout}"
    "set (encodes (trace (main_v2 E Args))) \<subseteq> {os_Stdout}"
    "\<forall>d img. written (main_v1 E Args) = Some (d, img) \<longrightarrow> d = os_Stdout"
    "\<forall>d img. written (main_v2 E Args) = Some (d, img) \<longrightarrow> d = os_Stdout"
    using main_v1_unnamed [OF _ assms(2), of E] main_v2_unnamed [OF _ assms(2), of E]
    by simp_all
  show "encodes (trace (main_v1 E Args)) = [os_Stdout]" if "status (main_v1 E Args) = 0"
    using main_v1_success [OF assms that] short by simp
  show "\<exists>img. written (main_v1 E Args) = Some (os_Stdout, img)"
    if "status (main_v1 E Args) = 0 \<and> WarnBrokenPipe \<notin> set (stderr (trace (main_v1 E Args)))"
    using main_v1_success [OF assms, of E] that short by simp
  show "encodes (trace (main_v2 E Args)) = [os_Stdout]" if "status (main_v2 E Args) = 0"
    using main_v2_success [OF assms that] short by simp
  show "\<exists>img. written (main_v2 E Args) = Some (os_Stdout, img)" if "status (main_v2 E Args) = 0"
    using main_v2_success [OF assms that] short by simp
next
  assume "isASCII stem \<and> p \<in> {CHR ''p'', CHR ''P''} \<and> n \<in> {CHR ''n'', CHR ''N''} \<and>
          g \<in> {CHR ''g'', CHR ''G''}"
  then show "outputName E (stem @ [CHR ''.'', p, n, g]) = (stem @ [CHR ''.'', p, n, g], False)"
    by (simp add: outputName_any_case)
qed

lemma main_v2_out: "status (main_v2 sample_env [''memegen'', ''hi'', ''out'']) = 0"
  by (simp add: main_v2_def v2_defs sample_env_def lower_defs outputName_def)

lemma main_v1_out: "status (main_v1 sample_env [''memegen'', ''hi'', ''out'']) = 0"
  by (simp add: v1_defs sample_env_def lower_defs outputName_def)

theorem output_destination_witness:
  "(\<exists>r rest. trace (main_v1 sample_env [''memegen'', ''hi'', ''out'']) =
      Stderr (WarnNotPng ''out'') # Create ''out.png'' r # rest) \<and>
   (\<exists>r rest. trace (main_v2 sample_env [''memegen'', ''hi'', ''out'']) =
      Stderr (WarnNotPng ''out'') # Create ''out.png'' r # rest) \<and>
   (\<exists>r rest. trace (main_v2 sample_env [''memegen'', ''hi'', ''out.PNG'']) =
      Create ''out.PNG'' r # rest) \<and>
   creates (trace (main_v2 sample_env [''memegen'', ''hi''])) = [] \<and>
   set (encodes (trace (main_v2 sample_env [''memegen'', ''hi'']))) \<subseteq> {os_Stdout} \<and>
   outputName sample_env ''out.PNG'' = (''out.PNG'', False) \<and>
   isASCII ''out'' \<and>
   status (main_v1 sample_env [''memegen'', ''hi'']) = 0 \<and>
   status (main_v2 sample_env [''memegen'', ''hi'']) = 0 \<and>
   encodes (trace (main_v1 sample_env [''memegen'', ''hi''])) = [os_Stdout] \<and>
   encodes (trace (main_v2 sample_env [''memegen'', ''hi''])) = [os_Stdout] \<and>
   (\<exists>img. written (main_v1 sample_env [''memegen'', ''hi'']) = Some (os_Stdout, img)) \<and>
   (\<exists>img. written (main_v2 sample_env [''memegen'', ''hi'']) = Some (os_Stdout, img)) \<and>
   status (main_v2 sample_env [''memegen'', ''hi'', ''out'']) = 0 \<and>
   encodes (trace (main_v1 sample_env [''memegen'', ''hi'', ''out''])) = [File ''out.png''] \<and>
   encodes (trace (main_v2 sample_env [''memegen'', ''hi'', ''out''])) = [File ''out.png''] \<and>
   (\<exists>img. written (main_v2 sample_env [''memegen'', ''hi'', ''out'']) =
      Some (File ''out.png'', img))"
  using output_destination [of "[''memegen'', ''hi'', ''out'']" sample_env]
    output_destination [of "[''memegen'', ''hi'', ''out.PNG'']" sample_env]
    output_destination [of "[''memegen'', ''hi'']" sample_env "''out''" "CHR ''P''" "CHR ''N''" "CHR ''G''"]
    suffix_out suffix_out_PNG main_v1_hi main_v2_hi main_v1_hi_quiet main_v2_out main_v1_out
  by (simp add: Let_def isASCII_def)

end
